theory Spec2Isabelle
  imports Main "HOL-Library.Word"
begin

unbundle bit_operations_syntax

section \<open>js/public/Utility.h: data model\<close>

text \<open>
  Machine integers are words: \<open>uint8_t\<close> is \<open>8 word\<close>, \<open>uint32_t\<close> (and a 32-bit
  \<open>int\<close> read as its bit pattern) is \<open>32 word\<close>, and \<open>size_t\<close> / \<open>uintptr_t\<close> is
  \<open>'a word\<close> for the platform width \<open>LENGTH('a)\<close> (32 or 64). Addresses of bytes in
  memory are natural numbers, \<open>nullptr\<close> is address 0.
\<close>

type_synonym u8 = "8 word"
type_synonym u32 = "32 word"
type_synonym addr = nat
type_synonym memory = "addr \<Rightarrow> u8"

definition nullptr :: addr where
  "nullptr = 0"

subsection \<open>Patterns used to overwrite unused memory (lines 42-49)\<close>

definition JS_FRESH_NURSERY_PATTERN :: u8 where
  "JS_FRESH_NURSERY_PATTERN = 0x2F"

definition JS_SWEPT_NURSERY_PATTERN :: u8 where
  "JS_SWEPT_NURSERY_PATTERN = 0x2B"

definition JS_ALLOCATED_NURSERY_PATTERN :: u8 where
  "JS_ALLOCATED_NURSERY_PATTERN = 0x2D"

definition JS_FRESH_TENURED_PATTERN :: u8 where
  "JS_FRESH_TENURED_PATTERN = 0x4F"

definition JS_SWEPT_TENURED_PATTERN :: u8 where
  "JS_SWEPT_TENURED_PATTERN = 0x4B"

definition JS_ALLOCATED_TENURED_PATTERN :: u8 where
  "JS_ALLOCATED_TENURED_PATTERN = 0x4D"

definition JS_SWEPT_CODE_PATTERN :: u8 where
  "JS_SWEPT_CODE_PATTERN = 0x3b"

definition JS_SWEPT_FRAME_PATTERN :: u8 where
  "JS_SWEPT_FRAME_PATTERN = 0x5b"

text \<open>
  The byte that \<open>js_delete_poison\<close> hands to \<open>memset\<close> (line 351). The source writes
  the literal \<open>0x3B\<close> there and gives it no name.
\<close>

definition js_delete_poison_byte :: u8 where
  "js_delete_poison_byte = 0x3B"

subsection \<open>Hash codes (lines 415-462)\<close>

type_synonym HashNumber = u32

definition HashNumberSizeBits :: nat where
  "HashNumberSizeBits = 32"

definition goldenRatio :: HashNumber where
  "goldenRatio = 0x9E3779B9"

definition ScrambleHashCode :: "HashNumber \<Rightarrow> HashNumber" where
  "ScrambleHashCode h = h * goldenRatio"

subsection \<open>Build configuration, observable effects and the world\<close>

text \<open>
  Calls that leave the translation unit are recorded in a trace, in program order: the
  allocator backend (\<open>malloc\<close>, \<open>calloc\<close>, \<open>realloc\<close>, \<open>free\<close>), \<open>memset\<close>, the
  breakpoint function, and the three operations a class \<open>T\<close> supplies (placement
  construction, the destructor, and its own \<open>release()\<close> method).
\<close>

datatype event =
    Malloc nat
  | Calloc nat nat
  | Realloc addr nat
  | Free addr
  | FailedAllocBreakpoint
  | Memset addr u8 nat
  | Construct addr
  | Destruct addr
  | MethodRelease addr

text \<open>
  The preprocessor symbols the header tests, and what the header takes from elsewhere:
  the macro \<open>JS_FREE_PATTERN\<close> is used by \<open>PoisonPtr\<close>/\<open>IsPoisonedPtr\<close> but defined in
  another header, so its value (a C \<open>int\<close>, kept as its 32-bit pattern) is a parameter;
  the allocator behind \<open>malloc\<close>/\<open>calloc\<close>/\<open>realloc\<close>/\<open>free\<close> is a parameter as well:
  given the calls so far, the memory and the request, it answers with a pointer and the
  memory it leaves. The branch \<open>JS_USE_CUSTOM_ALLOCATOR\<close> (which replaces lines 73-129
  by \<open>jscustomallocator.h\<close>) is not taken.
\<close>

record build =
  DEBUG :: bool
  JS_OOM_BREAKPOINT :: bool
  JSGC_ROOT_ANALYSIS :: bool
  JS_DEBUG :: bool
  JS_FREE_PATTERN :: u32
  backend :: "event list \<Rightarrow> memory \<Rightarrow> event \<Rightarrow> addr \<times> memory"

text \<open>The two globals of lines 79-80, the memory, and the trace.\<close>

record world =
  OOM_maxAllocations :: u32
  OOM_counter :: u32
  heap :: memory
  trace :: "event list"

text \<open>
  What the header needs to know of a class \<open>T\<close>: \<open>sizeof(T)\<close> (a \<open>size_t\<close>), what its
  constructor does to memory when run on arguments at an address, what its destructor
  does, and what its method \<open>release()\<close> does.
\<close>

record (overloaded) ('a, 'v) cxx_class =
  sizeof :: "'a::len word"
  constructor :: "'v list \<Rightarrow> addr \<Rightarrow> memory \<Rightarrow> memory"
  destructor :: "addr \<Rightarrow> memory \<Rightarrow> memory"
  release_method :: "addr \<Rightarrow> memory \<Rightarrow> memory"

definition log_event :: "event \<Rightarrow> world \<Rightarrow> world" where
  "log_event e w = w\<lparr>trace := trace w @ [e]\<rparr>"

definition call_backend :: "build \<Rightarrow> event \<Rightarrow> world \<Rightarrow> addr \<times> world" where
  "call_backend b c w =
     (let (p, m) = backend b (trace w) (heap w) c
      in (p, w\<lparr>heap := m, trace := trace w @ [c]\<rparr>))"

subsection \<open>Fault injection and the allocator facade (lines 73-129)\<close>

definition JS_OOM_CALL_BP_FUNC :: "build \<Rightarrow> world \<Rightarrow> world" where
  "JS_OOM_CALL_BP_FUNC b w =
     (if JS_OOM_BREAKPOINT b then log_event FailedAllocBreakpoint w else w)"

text \<open>
  The macro \<open>JS_OOM_POSSIBLY_FAIL\<close>. Its \<open>return nullptr\<close> leaves the enclosing function,
  so the model returns a flag: \<open>True\<close> when the enclosing function returns \<open>nullptr\<close>
  at once. \<open>++OOM_counter\<close> is a 32-bit increment.
\<close>

definition JS_OOM_POSSIBLY_FAIL :: "build \<Rightarrow> world \<Rightarrow> bool \<times> world" where
  "JS_OOM_POSSIBLY_FAIL b w =
     (if DEBUG b \<or> JS_OOM_BREAKPOINT b then
        (let w1 = w\<lparr>OOM_counter := OOM_counter w + 1\<rparr>
         in if OOM_counter w1 > OOM_maxAllocations w1
            then (True, JS_OOM_CALL_BP_FUNC b w1)
            else (False, w1))
      else (False, w))"

definition js_malloc :: "build \<Rightarrow> 'a::len word \<Rightarrow> world \<Rightarrow> addr \<times> world" where
  "js_malloc b bytes w =
     (let (failed, w1) = JS_OOM_POSSIBLY_FAIL b w
      in if failed then (nullptr, w1) else call_backend b (Malloc (unat bytes)) w1)"

text \<open>The overload \<open>js_calloc(size_t bytes)\<close>.\<close>

definition js_calloc :: "build \<Rightarrow> 'a::len word \<Rightarrow> world \<Rightarrow> addr \<times> world" where
  "js_calloc b bytes w =
     (let (failed, w1) = JS_OOM_POSSIBLY_FAIL b w
      in if failed then (nullptr, w1) else call_backend b (Calloc (unat bytes) 1) w1)"

text \<open>The overload \<open>js_calloc(size_t nmemb, size_t size)\<close>.\<close>

definition js_calloc2 :: "build \<Rightarrow> 'a::len word \<Rightarrow> 'a word \<Rightarrow> world \<Rightarrow> addr \<times> world" where
  "js_calloc2 b nmemb sz w =
     (let (failed, w1) = JS_OOM_POSSIBLY_FAIL b w
      in if failed then (nullptr, w1)
         else call_backend b (Calloc (unat nmemb) (unat sz)) w1)"

definition js_realloc :: "build \<Rightarrow> addr \<Rightarrow> 'a::len word \<Rightarrow> world \<Rightarrow> addr \<times> world" where
  "js_realloc b p bytes w =
     (let (failed, w1) = JS_OOM_POSSIBLY_FAIL b w
      in if failed then (nullptr, w1) else call_backend b (Realloc p (unat bytes)) w1)"

definition js_free :: "build \<Rightarrow> addr \<Rightarrow> world \<Rightarrow> world" where
  "js_free b p w = snd (call_backend b (Free p) w)"

subsection \<open>Typed construction and destruction (lines 176-354)\<close>

definition placement_new :: "('a::len, 'v) cxx_class \<Rightarrow> 'v list \<Rightarrow> addr \<Rightarrow> world \<Rightarrow> world" where
  "placement_new T parms p w =
     w\<lparr>heap := constructor T parms p (heap w), trace := trace w @ [Construct p]\<rparr>"

definition run_destructor :: "('a::len, 'v) cxx_class \<Rightarrow> addr \<Rightarrow> world \<Rightarrow> world" where
  "run_destructor T p w =
     w\<lparr>heap := destructor T p (heap w), trace := trace w @ [Destruct p]\<rparr>"

definition memset :: "addr \<Rightarrow> u8 \<Rightarrow> nat \<Rightarrow> world \<Rightarrow> world" where
  "memset p c n w =
     w\<lparr>heap := (\<lambda>a. if p \<le> a \<and> a < p + n then c else heap w a),
       trace := trace w @ [Memset p c n]\<rparr>"

text \<open>
  The macro \<open>JS_NEW_BODY(allocator, t, parms)\<close>: allocate \<open>sizeof(t)\<close> bytes, construct in
  place when the pointer is not null, return null otherwise.
\<close>

definition JS_NEW_BODY ::
  "('a::len word \<Rightarrow> world \<Rightarrow> addr \<times> world) \<Rightarrow> ('a, 'v) cxx_class \<Rightarrow> 'v list
     \<Rightarrow> world \<Rightarrow> addr \<times> world" where
  "JS_NEW_BODY allocator T parms w =
     (let (mem, w1) = allocator (sizeof T) w
      in if mem \<noteq> nullptr then (mem, placement_new T parms mem w1) else (nullptr, w1))"

text \<open>
  \<open>JS_DECLARE_NEW_METHODS(js_new, js_malloc, ...)\<close> declares thirteen overloads of
  \<open>js_new\<close>, for zero to twelve constructor arguments, all with the same body; the
  arguments are the list \<open>parms\<close>, of length at most 12.
\<close>

definition js_new :: "build \<Rightarrow> ('a::len, 'v) cxx_class \<Rightarrow> 'v list \<Rightarrow> world \<Rightarrow> addr \<times> world" where
  "js_new b T parms w = JS_NEW_BODY (js_malloc b) T parms w"

definition js_delete :: "build \<Rightarrow> ('a::len, 'v) cxx_class \<Rightarrow> addr \<Rightarrow> world \<Rightarrow> world" where
  "js_delete b T p w =
     (if p \<noteq> nullptr then js_free b p (run_destructor T p w) else w)"

definition js_delete_poison :: "build \<Rightarrow> ('a::len, 'v) cxx_class \<Rightarrow> addr \<Rightarrow> world \<Rightarrow> world" where
  "js_delete_poison b T p w =
     (if p \<noteq> nullptr
      then js_free b p (memset p 0x3B (unat (sizeof T)) (run_destructor T p w))
      else w)"

subsection \<open>Raw arrays of plain data (lines 356-386)\<close>

text \<open>The overloads without argument: one element.\<close>

definition js_pod_malloc1 :: "build \<Rightarrow> ('a::len, 'v) cxx_class \<Rightarrow> world \<Rightarrow> addr \<times> world" where
  "js_pod_malloc1 b T w = js_malloc b (sizeof T) w"

definition js_pod_calloc1 :: "build \<Rightarrow> ('a::len, 'v) cxx_class \<Rightarrow> world \<Rightarrow> addr \<times> world" where
  "js_pod_calloc1 b T w = js_calloc b (sizeof T) w"

text \<open>
  The overloads with \<open>numElems\<close>. The value \<open>mozilla::tl::MulOverflowMask<sizeof(T)>::value\<close>
  comes from \<open>mozilla/TemplateLib.h\<close>; here it is the argument \<open>ovf_mask\<close>. The product
  \<open>numElems * sizeof(T)\<close> is a \<open>size_t\<close> product and wraps.
\<close>

definition js_pod_malloc ::
  "build \<Rightarrow> 'a::len word \<Rightarrow> ('a, 'v) cxx_class \<Rightarrow> 'a word \<Rightarrow> world \<Rightarrow> addr \<times> world" where
  "js_pod_malloc b ovf_mask T numElems w =
     (if numElems AND ovf_mask \<noteq> 0 then (nullptr, w)
      else js_malloc b (numElems * sizeof T) w)"

definition js_pod_calloc ::
  "build \<Rightarrow> 'a::len word \<Rightarrow> ('a, 'v) cxx_class \<Rightarrow> 'a word \<Rightarrow> world \<Rightarrow> addr \<times> world" where
  "js_pod_calloc b ovf_mask T numElems w =
     (if numElems AND ovf_mask \<noteq> 0 then (nullptr, w)
      else js_calloc b (numElems * sizeof T) w)"

text \<open>
  Modelled from the spec: the template \<open>mozilla::tl::FloorLog2\<close> is declared in
  \<open>mozilla/TemplateLib.h\<close>, which is not among the sources. It serves \<open>CeilingLog2\<close>
  below: the number of halvings that take \<open>n\<close> to 1.
\<close>

fun FloorLog2 :: "nat \<Rightarrow> nat" where
  "FloorLog2 n = (if n \<le> 1 then 0 else 1 + FloorLog2 (n div 2))"

text \<open>
  Modelled from the spec: the template \<open>mozilla::tl::CeilingLog2\<close> is declared in
  \<open>mozilla/TemplateLib.h\<close>, which is not among the sources. It serves \<open>MulOverflowMask\<close>
  below: the least \<open>k\<close> with \<open>n \<le> 2^k\<close>.
\<close>

definition CeilingLog2 :: "nat \<Rightarrow> nat" where
  "CeilingLog2 n = FloorLog2 (2 * n - 1)"

text \<open>
  Modelled from the spec: the template \<open>mozilla::tl::MulOverflowMask\<close> is declared in
  \<open>mozilla/TemplateLib.h\<close>, which is not among the sources. The specification (4.4)
  asks of the check that a count whose product with the element size overflows the size
  type is refused, and (8) that for element sizes 1, 4, 8 and 16 the largest count whose
  product fits is accepted. \<open>MulOverflowMask N\<close> is the mask usable with
  \<open>numElems & mask\<close> for that: the top \<open>CeilingLog2 N\<close> bits of the size type, and 0 for
  \<open>N = 1\<close>.
\<close>

definition MulOverflowMask :: "'a::len word \<Rightarrow> 'a word" where
  "MulOverflowMask N =
     (if N = 1 then 0
      else NOT (push_bit (LENGTH('a) - CeilingLog2 (unat N)) 1 - 1))"

subsection \<open>Release policies of the scoped pointers (lines 388-413)\<close>

datatype traits = ScopedFreePtrTraits | ScopedDeletePtrTraits | ScopedReleasePtrTraits

text \<open>\<open>empty()\<close> is defined in \<open>ScopedFreePtrTraits\<close> and inherited by the other two.\<close>

definition traits_empty :: "traits \<Rightarrow> addr" where
  "traits_empty tr = nullptr"

definition call_release_method :: "('a::len, 'v) cxx_class \<Rightarrow> addr \<Rightarrow> world \<Rightarrow> world" where
  "call_release_method T p w =
     w\<lparr>heap := release_method T p (heap w), trace := trace w @ [MethodRelease p]\<rparr>"

fun traits_release ::
  "build \<Rightarrow> ('a::len, 'v) cxx_class \<Rightarrow> traits \<Rightarrow> addr \<Rightarrow> world \<Rightarrow> world" where
  "traits_release b T ScopedFreePtrTraits ptr w = js_free b ptr w"
| "traits_release b T ScopedDeletePtrTraits ptr w = js_delete b T ptr w"
| "traits_release b T ScopedReleasePtrTraits ptr w =
     (if ptr \<noteq> nullptr then call_release_method T ptr w else w)"

text \<open>
  Modelled from the spec: the macro \<open>SCOPED_TEMPLATE\<close> and the class \<open>mozilla::Scoped\<close>
  behind it are declared in \<open>mozilla/Scoped.h\<close>, which is not among the sources. The
  specification (3, 4.5) describes the handle: it is parameterised by a release policy
  and holds at most one value.
\<close>

record scoped =
  policy :: traits
  held :: addr

text \<open>
  Modelled from the spec: construct-empty of the handle of \<open>mozilla/Scoped.h\<close> (not among
  the sources); the handle holds the policy's empty value.
\<close>

definition scoped_empty :: "traits \<Rightarrow> scoped" where
  "scoped_empty tr = \<lparr>policy = tr, held = traits_empty tr\<rparr>"

text \<open>
  Modelled from the spec: construct-owning(value) of the handle of \<open>mozilla/Scoped.h\<close>
  (not among the sources).
\<close>

definition scoped_owning :: "traits \<Rightarrow> addr \<Rightarrow> scoped" where
  "scoped_owning tr v = \<lparr>policy = tr, held = v\<rparr>"

text \<open>
  Modelled from the spec: move-transfer of the handle of \<open>mozilla/Scoped.h\<close> (not among
  the sources): "source becomes empty, destination takes ownership - never copies". The
  result is the pair of the destination and the source as it is left.
\<close>

definition scoped_move :: "scoped \<Rightarrow> scoped \<times> scoped" where
  "scoped_move src =
     (\<lparr>policy = policy src, held = held src\<rparr>, src\<lparr>held := traits_empty (policy src)\<rparr>)"

text \<open>
  Modelled from the spec: explicit release-and-forget of the handle of
  \<open>mozilla/Scoped.h\<close> (not among the sources): "returns the raw value, clears the handle,
  caller now owns it". The result is the raw value and the handle as it is left.
\<close>

definition scoped_forget :: "scoped \<Rightarrow> addr \<times> scoped" where
  "scoped_forget h = (held h, h\<lparr>held := traits_empty (policy h)\<rparr>)"

text \<open>
  Modelled from the spec: scoped destruction of the handle of \<open>mozilla/Scoped.h\<close> (not
  among the sources): "on handle destruction, if non-empty, invoke the configured release
  policy exactly once". The policy itself is \<open>traits_release\<close>, from the source.
\<close>

definition scoped_destroy ::
  "build \<Rightarrow> ('a::len, 'v) cxx_class \<Rightarrow> scoped \<Rightarrow> world \<Rightarrow> world" where
  "scoped_destroy b T h w =
     (if held h \<noteq> traits_empty (policy h) then traits_release b T (policy h) (held h) w
      else w)"

subsection \<open>Poisoned pointer words (lines 464-496)\<close>

text \<open>
  \<open>PoisonPtr(void* v)\<close> stores the low byte of \<open>JS_FREE_PATTERN\<close> at address \<open>v + 3\<close>.
  \<open>IsPoisonedPtr(T* v)\<close> looks at the value of the pointer: \<open>uintptr_t(v) & 0xff000000\<close>
  is narrowed to \<open>uint32_t\<close> and compared with \<open>uint32_t(JS_FREE_PATTERN << 24)\<close> (the
  shift is taken on the 32-bit pattern). Both bodies are compiled only under
  \<open>JSGC_ROOT_ANALYSIS\<close> and \<open>JS_DEBUG\<close>.
\<close>

definition PoisonPtr :: "build \<Rightarrow> addr \<Rightarrow> world \<Rightarrow> world" where
  "PoisonPtr b v w =
     (if JSGC_ROOT_ANALYSIS b \<and> JS_DEBUG b
      then w\<lparr>heap := (heap w)(v + 3 := ucast (JS_FREE_PATTERN b))\<rparr>
      else w)"

definition IsPoisonedPtr :: "build \<Rightarrow> 'a::len word \<Rightarrow> bool" where
  "IsPoisonedPtr b v =
     (if JSGC_ROOT_ANALYSIS b \<and> JS_DEBUG b
      then (let msk = (ucast (v AND 0xff000000) :: u32)
            in msk = push_bit 24 (JS_FREE_PATTERN b))
      else False)"

text \<open>
  A pointer word of \<open>LENGTH('a) div 8\<close> bytes read from memory at address \<open>a\<close>, least
  significant byte first (the little-endian layout).
\<close>

definition load_pointer_word :: "memory \<Rightarrow> addr \<Rightarrow> 'a::len word" where
  "load_pointer_word m a =
     word_of_int (horner_sum uint (2 ^ 8) (map (\<lambda>i. m (a + i)) [0..<LENGTH('a) div 8]))"

subsection \<open>Sequential use of the gated operations\<close>

text \<open>
  A request to one of the four gated operations of the facade, the backend call each of
  them forwards when it is let through, and a run of requests one after the other, each
  on the world the previous one left.
\<close>

datatype 's request = ReqMalloc 's | ReqCalloc 's | ReqCalloc2 's 's | ReqRealloc addr 's

fun gated_call :: "build \<Rightarrow> 'a::len word request \<Rightarrow> world \<Rightarrow> addr \<times> world" where
  "gated_call b (ReqMalloc n) w = js_malloc b n w"
| "gated_call b (ReqCalloc n) w = js_calloc b n w"
| "gated_call b (ReqCalloc2 k n) w = js_calloc2 b k n w"
| "gated_call b (ReqRealloc p n) w = js_realloc b p n w"

fun forwarded :: "'a::len word request \<Rightarrow> event" where
  "forwarded (ReqMalloc n) = Malloc (unat n)"
| "forwarded (ReqCalloc n) = Calloc (unat n) 1"
| "forwarded (ReqCalloc2 k n) = Calloc (unat k) (unat n)"
| "forwarded (ReqRealloc p n) = Realloc p (unat n)"

fun sequential :: "build \<Rightarrow> 'a::len word request list \<Rightarrow> world \<Rightarrow> world" where
  "sequential b [] w = w"
| "sequential b (r # rs) w = sequential b rs (snd (gated_call b r w))"

fun is_backend_call :: "event \<Rightarrow> bool" where
  "is_backend_call (Malloc n) = True"
| "is_backend_call (Calloc k n) = True"
| "is_backend_call (Realloc p n) = True"
| "is_backend_call (Free p) = True"
| "is_backend_call e = False"

definition backend_calls :: "world \<Rightarrow> event list" where
  "backend_calls w = filter is_backend_call (trace w)"

text \<open>The addresses at which a constructor has run, in order.\<close>

fun constructions :: "event list \<Rightarrow> addr list" where
  "constructions [] = []"
| "constructions (Construct p # es) = p # constructions es"
| "constructions (e # es) = constructions es"

subsection \<open>Concrete builds, classes and worlds\<close>

text \<open>
  A backend that answers every allocation request with address 4096 and leaves memory
  alone; a debug build with fault injection and root analysis compiled in, where
  \<open>JS_FREE_PATTERN\<close> is \<open>0xDA\<close>; a release build with neither; a world with threshold \<open>N\<close>
  and counter zero; a class of a given size whose constructor stores its number of
  arguments in its first byte and whose destructor clears that byte.
\<close>

definition fixed_backend :: "event list \<Rightarrow> memory \<Rightarrow> event \<Rightarrow> addr \<times> memory" where
  "fixed_backend tr m c =
     (case c of Malloc n \<Rightarrow> (4096, m) | Calloc k n \<Rightarrow> (4096, m) | Realloc p n \<Rightarrow> (4096, m)
      | _ \<Rightarrow> (nullptr, m))"

definition debug_build :: build where
  "debug_build = \<lparr>DEBUG = True, JS_OOM_BREAKPOINT = False, JSGC_ROOT_ANALYSIS = True,
     JS_DEBUG = True, JS_FREE_PATTERN = 0xDA, backend = fixed_backend\<rparr>"

definition release_build :: build where
  "release_build = \<lparr>DEBUG = False, JS_OOM_BREAKPOINT = False, JSGC_ROOT_ANALYSIS = False,
     JS_DEBUG = False, JS_FREE_PATTERN = 0xDA, backend = fixed_backend\<rparr>"

definition fresh_world :: "u32 \<Rightarrow> world" where
  "fresh_world N = \<lparr>OOM_maxAllocations = N, OOM_counter = 0, heap = (\<lambda>a. 0), trace = []\<rparr>"

definition plain_class :: "'a::len word \<Rightarrow> ('a, 'v) cxx_class" where
  "plain_class n = \<lparr>sizeof = n,
     constructor = (\<lambda>parms p m. m(p := of_nat (length parms))),
     destructor = (\<lambda>p m. m(p := 0)),
     release_method = (\<lambda>p m. m)\<rparr>"

subsection \<open>The sentinel bytes of the lifecycle states\<close>

text \<open>
  The ten bytes the specification enumerates, in its order: the eight named patterns of
  lines 42-49, the byte \<open>js_delete_poison\<close> writes, and the byte \<open>PoisonPtr\<close> writes into a
  stale stack pointer (the low byte of \<open>JS_FREE_PATTERN\<close>).
\<close>

definition sentinel_patterns :: "build \<Rightarrow> u8 list" where
  "sentinel_patterns b =
     [JS_FRESH_NURSERY_PATTERN, JS_SWEPT_NURSERY_PATTERN, JS_ALLOCATED_NURSERY_PATTERN,
      JS_FRESH_TENURED_PATTERN, JS_SWEPT_TENURED_PATTERN, JS_ALLOCATED_TENURED_PATTERN,
      JS_SWEPT_CODE_PATTERN, JS_SWEPT_FRAME_PATTERN, js_delete_poison_byte,
      ucast (JS_FREE_PATTERN b)]"

subsection \<open>The byte the specification names\<close>

text \<open>
  The specification (4.7) speaks of the second-most-significant byte of the pointer's
  bit pattern: bits \<open>LENGTH('a) - 16\<close> to \<open>LENGTH('a) - 9\<close>. The byte the code tests is
  \<open>byte3\<close>, bits 24 to 31.
\<close>

definition second_most_significant_byte :: "'a::len word \<Rightarrow> u8" where
  "second_most_significant_byte v = ucast (drop_bit (LENGTH('a) - 16) v)"

definition byte3 :: "'a::len word \<Rightarrow> u8" where
  "byte3 v = ucast (drop_bit 24 v)"

section \<open>Properties\<close>

subsection \<open>Hash scrambler\<close>

text \<open>
  Claim C3. \<open>ScrambleHashCode\<close> is a total function of its 32-bit argument alone (it
  takes and returns no state, so equal inputs give equal outputs), and for every \<open>h\<close>
  its value is \<open>h * 0x9E3779B9\<close> reduced modulo \<open>2^32\<close>.
\<close>

theorem ScrambleHashCode_wrapping_product:
  "ScrambleHashCode h = h * 0x9E3779B9
   \<and> unat (ScrambleHashCode h) = (unat h * 0x9E3779B9) mod 2 ^ 32
   \<and> unat (ScrambleHashCode h) < 2 ^ HashNumberSizeBits"
proof -
  have "unat (h * (0x9E3779B9 :: u32)) = (unat h * 0x9E3779B9) mod 2 ^ 32"
    by (simp add: unat_word_ariths)
  moreover have "unat (ScrambleHashCode h) < 2 ^ 32"
    using unsigned_less [of "ScrambleHashCode h"] by simp
  ultimately show ?thesis
    by (simp add: ScrambleHashCode_def goldenRatio_def HashNumberSizeBits_def)
qed


subsection \<open>Auxiliary facts: backend calls and the fault injector\<close>

lemma fresh_world_fields:
  "OOM_counter (fresh_world N) = 0" "OOM_maxAllocations (fresh_world N) = N"
  "trace (fresh_world N) = []"
  by (simp_all add: fresh_world_def)

lemma debug_build_fields:
  "DEBUG debug_build" "backend debug_build = fixed_backend"
  "JSGC_ROOT_ANALYSIS debug_build" "JS_DEBUG debug_build" "JS_FREE_PATTERN debug_build = 0xDA"
  "\<not> JS_OOM_BREAKPOINT debug_build"
  by (simp_all add: debug_build_def)

lemma release_build_fields:
  "\<not> DEBUG release_build" "\<not> JS_OOM_BREAKPOINT release_build"
  "backend release_build = fixed_backend"
  "\<not> JSGC_ROOT_ANALYSIS release_build" "\<not> JS_DEBUG release_build"
  by (simp_all add: release_build_def)

lemma trace_call_backend: "trace (snd (call_backend b c w)) = trace w @ [c]"
  by (simp add: call_backend_def split: prod.splits)

lemma fst_call_backend: "fst (call_backend b c w) = fst (backend b (trace w) (heap w) c)"
  by (simp add: call_backend_def split: prod.splits)

lemma counters_call_backend:
  "OOM_counter (snd (call_backend b c w)) = OOM_counter w"
  "OOM_maxAllocations (snd (call_backend b c w)) = OOM_maxAllocations w"
  by (simp_all add: call_backend_def split: prod.splits)

lemma trace_js_free: "trace (js_free b p w) = trace w @ [Free p]"
  by (simp add: js_free_def trace_call_backend)

lemma counters_js_free:
  "OOM_counter (js_free b p w) = OOM_counter w"
  "OOM_maxAllocations (js_free b p w) = OOM_maxAllocations w"
  by (simp_all add: js_free_def counters_call_backend)

lemma heap_memset: "heap (memset p c n w) a = (if p \<le> a \<and> a < p + n then c else heap w a)"
  by (simp add: memset_def)

lemma gated_call_unfold:
  "gated_call b r w =
     (if fst (JS_OOM_POSSIBLY_FAIL b w) then (nullptr, snd (JS_OOM_POSSIBLY_FAIL b w))
      else call_backend b (forwarded r) (snd (JS_OOM_POSSIBLY_FAIL b w)))"
  by (cases r)
     (simp_all add: js_malloc_def js_calloc_def js_calloc2_def js_realloc_def split_beta)

lemma possibly_fail_compiled:
  assumes "DEBUG b \<or> JS_OOM_BREAKPOINT b"
  shows "fst (JS_OOM_POSSIBLY_FAIL b w) = (OOM_maxAllocations w < OOM_counter w + 1)"
    and "OOM_counter (snd (JS_OOM_POSSIBLY_FAIL b w)) = OOM_counter w + 1"
    and "OOM_maxAllocations (snd (JS_OOM_POSSIBLY_FAIL b w)) = OOM_maxAllocations w"
    and "heap (snd (JS_OOM_POSSIBLY_FAIL b w)) = heap w"
    and "backend_calls (snd (JS_OOM_POSSIBLY_FAIL b w)) = backend_calls w"
    and "\<not> fst (JS_OOM_POSSIBLY_FAIL b w) \<Longrightarrow> trace (snd (JS_OOM_POSSIBLY_FAIL b w)) = trace w"
  using assms
  by (auto simp add: JS_OOM_POSSIBLY_FAIL_def JS_OOM_CALL_BP_FUNC_def log_event_def Let_def
      backend_calls_def)

lemma gated_call_counters:
  assumes "DEBUG b \<or> JS_OOM_BREAKPOINT b"
  shows "OOM_counter (snd (gated_call b r w)) = OOM_counter w + 1"
    and "OOM_maxAllocations (snd (gated_call b r w)) = OOM_maxAllocations w"
  using possibly_fail_compiled(2,3) [OF assms, of w]
  by (simp_all add: gated_call_unfold counters_call_backend)

lemma sequential_counters:
  assumes "DEBUG b \<or> JS_OOM_BREAKPOINT b"
  shows "OOM_counter (sequential b rs w) = OOM_counter w + of_nat (length rs)
         \<and> OOM_maxAllocations (sequential b rs w) = OOM_maxAllocations w"
  by (induction rs arbitrary: w) (simp_all add: gated_call_counters [OF assms])

lemma gated_call_verdict:
  assumes "DEBUG b \<or> JS_OOM_BREAKPOINT b"
  shows "OOM_counter w + 1 \<le> OOM_maxAllocations w \<Longrightarrow>
           fst (gated_call b r w) = fst (backend b (trace w) (heap w) (forwarded r))
           \<and> trace (snd (gated_call b r w)) = trace w @ [forwarded r]"
    and "OOM_maxAllocations w < OOM_counter w + 1 \<Longrightarrow>
           fst (gated_call b r w) = nullptr
           \<and> backend_calls (snd (gated_call b r w)) = backend_calls w
           \<and> heap (snd (gated_call b r w)) = heap w"
  using possibly_fail_compiled [OF assms, of w]
  by (simp_all add: gated_call_unfold trace_call_backend fst_call_backend not_less [symmetric])

subsection \<open>Auxiliary facts: the overflow mask\<close>

lemma push1_minus1: "(push_bit m 1 - 1 :: 'a::len word) = mask m"
  by (simp add: mask_eq_exp_minus_1 push_bit_eq_mult)

lemma uint_unat_less_pow: "(uint (n :: 'a::len word) < 2 ^ m) \<longleftrightarrow> (unat n < 2 ^ m)"
proof -
  have "uint n = int (unat n)" by simp
  then show ?thesis
    by (metis of_nat_less_numeral_power_cancel_iff)
qed

lemma and_not_mask_zero_iff:
  fixes n :: "'a::len word"
  shows "(n AND NOT (mask m) = 0) \<longleftrightarrow> unat n < 2 ^ m"
proof -
  have "(n AND NOT (mask m) = 0) \<longleftrightarrow> (n AND mask m = n)"
    by (auto simp add: bit_eq_iff bit_simps)
  also have "\<dots> \<longleftrightarrow> uint n < 2 ^ m"
    by (rule mask_eq_iff)
  finally show ?thesis by (simp only: uint_unat_less_pow)
qed

lemma pow_split:
  assumes "k \<le> (L::nat)"
  shows "(2 ^ L \<le> n * 2 ^ k) \<longleftrightarrow> (2 ^ (L - k) \<le> (n::nat))"
proof -
  have "(2::nat) ^ L = 2 ^ (L - k) * 2 ^ k"
    using assms by (simp add: power_add [symmetric])
  then show ?thesis by simp
qed

lemma top_bits_mask_iff:
  fixes n :: "'a::len word"
  assumes "k \<le> LENGTH('a)"
  shows "(n AND NOT (push_bit (LENGTH('a) - k) 1 - 1) \<noteq> 0)
         \<longleftrightarrow> 2 ^ LENGTH('a) \<le> unat n * 2 ^ k"
proof -
  have "(n AND NOT (push_bit (LENGTH('a) - k) 1 - 1) \<noteq> 0)
        \<longleftrightarrow> \<not> unat n < 2 ^ (LENGTH('a) - k)"
    by (simp only: push1_minus1 and_not_mask_zero_iff)
  also have "\<dots> \<longleftrightarrow> 2 ^ LENGTH('a) \<le> unat n * 2 ^ k"
    using assms by (simp add: pow_split not_less)
  finally show ?thesis .
qed

lemma unat_small_numerals:
  assumes "4 < LENGTH('a::len)"
  shows "unat (4 :: 'a word) = 4" "unat (8 :: 'a word) = 8" "unat (16 :: 'a word) = 16"
proof -
  have "(2::nat) ^ 5 \<le> 2 ^ LENGTH('a)"
    using assms by (intro power_increasing) simp_all
  then have "(32::nat) \<le> 2 ^ LENGTH('a)" by simp
  then show "unat (4 :: 'a word) = 4" "unat (8 :: 'a word) = 8" "unat (16 :: 'a word) = 16"
    by (simp_all add: unat_eq_nat_uint uint_numeral take_bit_eq_mod)
qed

lemma CeilingLog2_values:
  "CeilingLog2 1 = 0" "CeilingLog2 4 = 2" "CeilingLog2 8 = 3" "CeilingLog2 16 = 4"
  by (simp_all add: CeilingLog2_def)

text \<open>
  For every element size but 0, the mask refuses every count whose product with the
  size overflows the size type.
\<close>

lemma FloorLog2_bounds:
  assumes "0 < n"
  shows "2 ^ FloorLog2 n \<le> n \<and> n < 2 ^ (FloorLog2 n + 1)"
  using assms
proof (induction n rule: FloorLog2.induct)
  case (1 n)
  show ?case
  proof (cases "n \<le> 1")
    case True
    with 1(2) have "n = 1" by simp
    then show ?thesis by simp
  next
    case False
    then have "0 < n div 2" by simp
    from 1(1) [OF False this]
    have lo: "2 ^ FloorLog2 (n div 2) \<le> n div 2"
      and hi: "n div 2 < 2 ^ (FloorLog2 (n div 2) + 1)"
      by simp_all
    have f: "FloorLog2 n = 1 + FloorLog2 (n div 2)"
      using False by simp
    from lo have "2 * 2 ^ FloorLog2 (n div 2) \<le> n" by simp
    moreover from hi have "n < 2 * 2 ^ (FloorLog2 (n div 2) + 1)" by simp
    ultimately show ?thesis
      by (simp only: f) simp
  qed
qed

lemma CeilingLog2_bounds:
  assumes "0 < n" and "n < 2 ^ L"
  shows "n \<le> 2 ^ CeilingLog2 n" and "CeilingLog2 n \<le> L"
proof -
  have pos: "0 < 2 * n - 1" using assms(1) by simp
  note b = FloorLog2_bounds [OF pos]
  from b have "2 * n - 1 < 2 * 2 ^ FloorLog2 (2 * n - 1)" by simp
  then have "2 * n \<le> 2 * 2 ^ FloorLog2 (2 * n - 1)" by simp
  then show "n \<le> 2 ^ CeilingLog2 n"
    by (simp add: CeilingLog2_def)
  from b have "2 ^ FloorLog2 (2 * n - 1) \<le> 2 * n - 1" by simp
  also have "\<dots> < 2 * 2 ^ L" using assms by simp
  finally have "(2::nat) ^ FloorLog2 (2 * n - 1) < 2 ^ (L + 1)" by simp
  then have "FloorLog2 (2 * n - 1) < L + 1"
    using power_less_imp_less_exp [of "2::nat" "FloorLog2 (2 * n - 1)" "L + 1"] by simp
  then show "CeilingLog2 n \<le> L"
    by (simp add: CeilingLog2_def)
qed

lemma MulOverflowMask_refuses_every_overflow:
  fixes n sz :: "'a::len word"
  assumes "sz \<noteq> 0" and "2 ^ LENGTH('a) \<le> unat n * unat sz"
  shows "n AND MulOverflowMask sz \<noteq> 0"
proof (cases "sz = 1")
  case True
  have "unat n < 2 ^ LENGTH('a)" by (rule unsigned_less)
  with assms(2) True show ?thesis by simp
next
  case False
  have pos: "0 < unat sz" using assms(1) by (simp add: unat_gt_0)
  note c = CeilingLog2_bounds [OF pos unsigned_less [of sz]]
  have "unat n * unat sz \<le> unat n * 2 ^ CeilingLog2 (unat sz)"
    using c(1) by (rule mult_le_mono2)
  with assms(2) have "2 ^ LENGTH('a) \<le> unat n * 2 ^ CeilingLog2 (unat sz)"
    by (rule le_trans)
  with top_bits_mask_iff [of "CeilingLog2 (unat sz)" n] c(2) False show ?thesis
    by (simp add: MulOverflowMask_def)
qed

subsection \<open>Deletion\<close>

text \<open>
  Claim C6. \<open>js_delete\<close> on the null pointer changes nothing: no destructor runs and
  nothing is released. On a pointer \<open>p\<close> that is not null it runs the destructor of \<open>T\<close>
  at \<open>p\<close> and then hands \<open>p\<close> to \<open>js_free\<close>: the trace grows by the destructor call
  followed by the call of \<open>free\<close>, in this order, and by nothing else.
\<close>

theorem js_delete_null_noop_else_destroy_then_free:
  "js_delete b T nullptr w = w
   \<and> (p \<noteq> nullptr \<longrightarrow>
        js_delete b T p w = js_free b p (run_destructor T p w)
        \<and> heap (run_destructor T p w) = destructor T p (heap w)
        \<and> trace (js_delete b T p w) = trace w @ [Destruct p, Free p]
        \<and> OOM_counter (js_delete b T p w) = OOM_counter w)"
  by (simp add: js_delete_def trace_js_free counters_js_free run_destructor_def)

theorem js_delete_witness:
  "js_delete debug_build (plain_class 8 :: (64, nat) cxx_class) nullptr (fresh_world 5) = fresh_world 5
   \<and> (4096::nat) \<noteq> nullptr
   \<and> trace (js_delete debug_build (plain_class 8 :: (64, nat) cxx_class) 4096 (fresh_world 5))
       = [Destruct 4096, Free 4096]"
proof -
  note t = js_delete_null_noop_else_destroy_then_free
    [of debug_build "plain_class 8 :: (64, nat) cxx_class" "fresh_world 5" 4096]
  have np: "(4096::nat) \<noteq> nullptr" by (simp add: nullptr_def)
  from t have "js_delete debug_build (plain_class 8 :: (64, nat) cxx_class) nullptr (fresh_world 5)
      = fresh_world 5"
    by (rule conjunct1)
  moreover from t np
  have "trace (js_delete debug_build (plain_class 8 :: (64, nat) cxx_class) 4096 (fresh_world 5))
      = trace (fresh_world 5) @ [Destruct 4096, Free 4096]"
    by blast
  ultimately show ?thesis using np by (simp add: fresh_world_def)
qed

text \<open>
  Claim C5. For a pointer \<open>p\<close> that is not null, \<open>js_delete_poison\<close> runs the destructor
  of \<open>T\<close> at \<open>p\<close> (world \<open>w1\<close>), then fills the \<open>sizeof(T)\<close> bytes from \<open>p\<close> with the byte
  \<open>0x3B\<close> and touches no other byte (world \<open>w2\<close>), and only then releases \<open>p\<close>: it is
  \<open>js_free\<close> applied to \<open>w2\<close>, and the trace grows by destructor, \<open>memset\<close>, \<open>free\<close> in
  this order.
\<close>

theorem js_delete_poison_destroy_poison_free:
  assumes "p \<noteq> nullptr"
  shows "\<exists>w1 w2. w1 = run_destructor T p w
           \<and> w2 = memset p js_delete_poison_byte (unat (sizeof T)) w1
           \<and> js_delete_poison b T p w = js_free b p w2
           \<and> heap w1 = destructor T p (heap w)
           \<and> (\<forall>i < unat (sizeof T). heap w2 (p + i) = js_delete_poison_byte)
           \<and> (\<forall>a. a < p \<or> p + unat (sizeof T) \<le> a \<longrightarrow> heap w2 a = heap w1 a)
           \<and> js_delete_poison_byte = 0x3B
           \<and> trace (js_delete_poison b T p w) =
               trace w @ [Destruct p, Memset p 0x3B (unat (sizeof T)), Free p]"
  using assms
  by (simp add: js_delete_poison_def js_delete_poison_byte_def trace_js_free heap_memset)
     (simp add: memset_def run_destructor_def)

theorem js_delete_poison_witness:
  "(4096::nat) \<noteq> nullptr
   \<and> trace (js_delete_poison debug_build (plain_class 8 :: (64, nat) cxx_class) 4096 (fresh_world 5))
       = [Destruct 4096, Memset 4096 0x3B 8, Free 4096]"
proof -
  have np: "(4096::nat) \<noteq> nullptr" by (simp add: nullptr_def)
  from js_delete_poison_destroy_poison_free
    [OF np, of "plain_class 8 :: (64, nat) cxx_class" "fresh_world 5" debug_build]
  have "trace (js_delete_poison debug_build (plain_class 8 :: (64, nat) cxx_class) 4096 (fresh_world 5))
      = trace (fresh_world 5)
        @ [Destruct 4096, Memset 4096 0x3B (unat (sizeof (plain_class 8 :: (64, nat) cxx_class))), Free 4096]"
    by blast
  then show ?thesis using np by (simp add: fresh_world_def plain_class_def)
qed

subsection \<open>Fault injection\<close>

text \<open>
  What the injector does on every attempt. Fault injection is compiled in, the counter
  starts at zero and the threshold is \<open>N = OOM_maxAllocations w\<close>. After the gated
  requests \<open>rs\<close> (any mix of \<open>js_malloc\<close>, both \<open>js_calloc\<close> and \<open>js_realloc\<close>), the next
  gated request \<open>r\<close> is attempt number \<open>k = length rs + 1\<close>. If \<open>k mod 2^32\<close> is at most
  \<open>N\<close>, the check lets the request through and exactly the backend call of \<open>r\<close> is made,
  its answer returned; if \<open>k mod 2^32\<close> is above \<open>N\<close>, the request returns null, no
  backend call is made and memory is untouched.
\<close>

lemma injector_verdict_every_attempt:
  fixes rs :: "'a::len word request list" and r :: "'a word request"
  assumes "DEBUG b \<or> JS_OOM_BREAKPOINT b"
    and "OOM_counter w = 0"
  shows "((length rs + 1) mod 2 ^ 32 \<le> unat (OOM_maxAllocations w) \<longrightarrow>
            \<not> fst (JS_OOM_POSSIBLY_FAIL b (sequential b rs w))
            \<and> fst (gated_call b r (sequential b rs w))
                = fst (backend b (trace (sequential b rs w)) (heap (sequential b rs w)) (forwarded r))
            \<and> trace (snd (gated_call b r (sequential b rs w)))
                = trace (sequential b rs w) @ [forwarded r])
       \<and> (unat (OOM_maxAllocations w) < (length rs + 1) mod 2 ^ 32 \<longrightarrow>
            fst (JS_OOM_POSSIBLY_FAIL b (sequential b rs w))
            \<and> fst (gated_call b r (sequential b rs w)) = nullptr
            \<and> backend_calls (snd (gated_call b r (sequential b rs w)))
                = backend_calls (sequential b rs w)
            \<and> heap (snd (gated_call b r (sequential b rs w))) = heap (sequential b rs w))"
proof -
  let ?wk = "sequential b rs w"
  have cnt: "OOM_counter ?wk + 1 = of_nat (length rs + 1)"
    and mx: "OOM_maxAllocations ?wk = OOM_maxAllocations w"
    using sequential_counters [OF assms(1), of rs w] assms(2) by simp_all
  have "unat (of_nat (length rs + 1) :: u32) = (length rs + 1) mod 2 ^ 32"
    by (simp only: unat_of_nat) simp
  then have u: "unat (OOM_counter ?wk + 1) = (length rs + 1) mod 2 ^ 32"
    by (simp only: cnt)
  have le: "(OOM_counter ?wk + 1 \<le> OOM_maxAllocations ?wk)
            \<longleftrightarrow> ((length rs + 1) mod 2 ^ 32 \<le> unat (OOM_maxAllocations w))"
    by (simp only: word_le_nat_alt u mx)
  have less: "(OOM_maxAllocations ?wk < OOM_counter ?wk + 1)
            \<longleftrightarrow> (unat (OOM_maxAllocations w) < (length rs + 1) mod 2 ^ 32)"
    by (simp only: word_less_nat_alt u mx)
  show ?thesis
    using gated_call_verdict [OF assms(1), of ?wk r]
      possibly_fail_compiled(1) [OF assms(1), of ?wk] le less
    by (simp only: not_less) blast
qed

text \<open>
  The scenario of the specification (8): threshold 2, three times \<open>js_malloc(16)\<close>; the
  results are non-null, non-null, null.
\<close>

lemma injector_threshold_two_scenario:
  "fst (gated_call debug_build (ReqMalloc (16 :: 64 word)) (fresh_world 2)) = 4096
   \<and> fst (gated_call debug_build (ReqMalloc (16 :: 64 word))
        (sequential debug_build [ReqMalloc (16 :: 64 word)] (fresh_world 2)))
      = 4096
   \<and> fst (gated_call debug_build (ReqMalloc (16 :: 64 word))
        (sequential debug_build [ReqMalloc (16 :: 64 word), ReqMalloc (16 :: 64 word)] (fresh_world 2)))
      = nullptr"
proof -
  have dbg: "DEBUG debug_build \<or> JS_OOM_BREAKPOINT debug_build"
    by (simp add: debug_build_fields)
  have c0: "OOM_counter (fresh_world 2) = 0"
    by (simp add: fresh_world_fields)
  note v = injector_verdict_every_attempt [OF dbg c0, where r = "ReqMalloc (16 :: 64 word)"]
  have a: "fst (gated_call debug_build (ReqMalloc (16 :: 64 word))
          (sequential debug_build [] (fresh_world 2))) = 4096"
    using v [of "[]"] by (simp add: fresh_world_fields debug_build_fields fixed_backend_def)
  have b: "fst (gated_call debug_build (ReqMalloc (16 :: 64 word))
          (sequential debug_build [ReqMalloc (16 :: 64 word)] (fresh_world 2))) = 4096"
    using v [of "[ReqMalloc (16 :: 64 word)]"]
    by (simp add: fresh_world_fields debug_build_fields fixed_backend_def)
  have "unat (OOM_maxAllocations (fresh_world 2))
      < (length [ReqMalloc (16 :: 64 word), ReqMalloc (16 :: 64 word)] + 1) mod 2 ^ 32"
    by (simp add: fresh_world_fields)
  with v [of "[ReqMalloc (16 :: 64 word), ReqMalloc (16 :: 64 word)]"]
  have c: "fst (gated_call debug_build (ReqMalloc (16 :: 64 word))
          (sequential debug_build [ReqMalloc (16 :: 64 word), ReqMalloc (16 :: 64 word)] (fresh_world 2)))
        = nullptr"
    by blast
  from a have a': "fst (gated_call debug_build (ReqMalloc (16 :: 64 word)) (fresh_world 2)) = 4096"
    by simp
  show ?thesis
    using a' b c by blast
qed

text \<open>
  Claim C1 says that with threshold \<open>N\<close> and the counter starting at zero exactly the
  first \<open>N\<close> gated attempts pass and every later one returns null without a backend call
  until the state is reset, as the comment of lines 74-78 has it ("we fail continuously
  after the NUM'th allocation from now"). The code does so for attempts 1 to \<open>2^32 - 1\<close>
  and breaks it at attempt \<open>2^32\<close>: \<open>OOM_counter\<close> is a \<open>uint32_t\<close>, \<open>++OOM_counter\<close> takes
  it from \<open>0xFFFFFFFF\<close> to \<open>0\<close>, and \<open>0 > N\<close> is false. In a debug build with threshold 0
  and no reset in between, the first \<open>js_malloc(16)\<close> and the one numbered \<open>2^32 - 1\<close>
  return null, and the one numbered \<open>2^32\<close> is let through: \<open>malloc(16)\<close> is called and its
  pointer returned.
\<close>

theorem injector_passes_again_after_wraparound:
  "DEBUG debug_build
   \<and> OOM_counter (fresh_world 0) = 0 \<and> OOM_maxAllocations (fresh_world 0) = 0
   \<and> fst (gated_call debug_build (ReqMalloc (16 :: 64 word)) (fresh_world 0)) = nullptr
   \<and> fst (gated_call debug_build (ReqMalloc (16 :: 64 word))
        (sequential debug_build (replicate (2 ^ 32 - 2) (ReqMalloc (16 :: 64 word))) (fresh_world 0)))
      = nullptr
   \<and> OOM_counter
        (sequential debug_build (replicate (2 ^ 32 - 1) (ReqMalloc (16 :: 64 word))) (fresh_world 0))
      = 0xFFFFFFFF
   \<and> OOM_maxAllocations
        (sequential debug_build (replicate (2 ^ 32 - 1) (ReqMalloc (16 :: 64 word))) (fresh_world 0))
      = 0
   \<and> fst (gated_call debug_build (ReqMalloc (16 :: 64 word))
        (sequential debug_build (replicate (2 ^ 32 - 1) (ReqMalloc (16 :: 64 word))) (fresh_world 0)))
      = 4096
   \<and> trace (snd (gated_call debug_build (ReqMalloc (16 :: 64 word))
        (sequential debug_build (replicate (2 ^ 32 - 1) (ReqMalloc (16 :: 64 word))) (fresh_world 0))))
      = trace (sequential debug_build (replicate (2 ^ 32 - 1) (ReqMalloc (16 :: 64 word)))
          (fresh_world 0)) @ [Malloc 16]
   \<and> (4096 :: nat) \<noteq> nullptr"
proof -
  let ?r = "ReqMalloc (16 :: 64 word)"
  let ?rs = "replicate (2 ^ 32 - 1) ?r"
  let ?rs' = "replicate (2 ^ 32 - 2) ?r"
  let ?wk = "sequential debug_build ?rs (fresh_world 0)"
  let ?wj = "sequential debug_build ?rs' (fresh_world 0)"
  have dbg: "DEBUG debug_build \<or> JS_OOM_BREAKPOINT debug_build"
    by (simp add: debug_build_fields)
  have cnt: "OOM_counter ?wk = 0xFFFFFFFF" and mx: "OOM_maxAllocations ?wk = 0"
    using sequential_counters [OF dbg, of ?rs "fresh_world 0"]
    by (simp_all add: fresh_world_fields)
  then have "OOM_counter ?wk + 1 \<le> OOM_maxAllocations ?wk"
    by simp
  from gated_call_verdict(1) [OF dbg this, of ?r]
  have last: "fst (gated_call debug_build ?r ?wk) = 4096"
    and tr: "trace (snd (gated_call debug_build ?r ?wk)) = trace ?wk @ [Malloc 16]"
    by (simp_all add: debug_build_fields fixed_backend_def)
  have "OOM_counter ?wj = 0xFFFFFFFE" and "OOM_maxAllocations ?wj = 0"
    using sequential_counters [OF dbg, of ?rs' "fresh_world 0"]
    by (simp_all add: fresh_world_fields)
  then have "OOM_maxAllocations ?wj < OOM_counter ?wj + 1"
    by simp
  from gated_call_verdict(2) [OF dbg this, of ?r]
  have prev: "fst (gated_call debug_build ?r ?wj) = nullptr"
    by simp
  have "OOM_maxAllocations (fresh_world 0) < OOM_counter (fresh_world 0) + 1"
    by (simp add: fresh_world_fields)
  from gated_call_verdict(2) [OF dbg this, of ?r]
  have first: "fst (gated_call debug_build ?r (fresh_world 0)) = nullptr"
    by simp
  show ?thesis
    using first prev cnt mx last tr
    by (simp add: fresh_world_fields debug_build_fields nullptr_def)
qed

subsection \<open>Auxiliary facts: requests that are let through, constructions\<close>

lemma possibly_fail_not_compiled:
  assumes "\<not> (DEBUG b \<or> JS_OOM_BREAKPOINT b)"
  shows "JS_OOM_POSSIBLY_FAIL b w = (False, w)"
  using assms by (simp add: JS_OOM_POSSIBLY_FAIL_def)

lemma gated_call_changes_world: "snd (gated_call b r w) \<noteq> w"
proof (cases "DEBUG b \<or> JS_OOM_BREAKPOINT b")
  case True
  have "OOM_counter (snd (gated_call b r w)) = OOM_counter w + 1"
    by (rule gated_call_counters(1) [OF True])
  moreover have "OOM_counter w + 1 \<noteq> OOM_counter w"
    by simp
  ultimately show ?thesis
    by metis
next
  case False
  have "trace (snd (gated_call b r w)) = trace w @ [forwarded r]"
    by (simp add: gated_call_unfold possibly_fail_not_compiled [OF False] trace_call_backend)
  then show ?thesis
    by auto
qed

lemma gated_call_let_through:
  assumes "\<not> fst (JS_OOM_POSSIBLY_FAIL b w)"
  shows "trace (snd (gated_call b r w)) = trace w @ [forwarded r]"
proof (cases "DEBUG b \<or> JS_OOM_BREAKPOINT b")
  case True
  from possibly_fail_compiled(6) [OF True assms] assms show ?thesis
    by (simp add: gated_call_unfold trace_call_backend)
next
  case False
  show ?thesis
    by (simp add: gated_call_unfold possibly_fail_not_compiled [OF False] trace_call_backend)
qed

lemma gated_call_stopped:
  assumes "fst (JS_OOM_POSSIBLY_FAIL b w)"
  shows "fst (gated_call b r w) = nullptr
         \<and> backend_calls (snd (gated_call b r w)) = backend_calls w
         \<and> heap (snd (gated_call b r w)) = heap w"
proof (cases "DEBUG b \<or> JS_OOM_BREAKPOINT b")
  case True
  from possibly_fail_compiled(4,5) [OF True, of w] assms show ?thesis
    by (simp add: gated_call_unfold)
next
  case False
  from possibly_fail_not_compiled [OF False, of w] assms show ?thesis
    by simp
qed

lemma constructions_append_other:
  "constructions (es @ [e]) = constructions es @ constructions [e]"
  by (induction es rule: constructions.induct) simp_all

lemma constructions_possibly_fail:
  "constructions (trace (snd (JS_OOM_POSSIBLY_FAIL b w))) = constructions (trace w)"
  by (simp add: JS_OOM_POSSIBLY_FAIL_def JS_OOM_CALL_BP_FUNC_def log_event_def Let_def
      constructions_append_other)

lemma constructions_js_malloc:
  "constructions (trace (snd (js_malloc b n w))) = constructions (trace w)"
  by (simp add: js_malloc_def split_beta trace_call_backend constructions_append_other
      constructions_possibly_fail)

subsection \<open>Construction\<close>

text \<open>
  Claim C4. For a class \<open>T\<close> and up to twelve constructor arguments, \<open>js_new\<close> asks
  \<open>js_malloc\<close> for \<open>sizeof(T)\<close> bytes. If that returns null, \<open>js_new\<close> returns null and
  the world is the one \<open>js_malloc\<close> left: no constructor has run. Otherwise \<open>js_new\<close>
  returns that pointer, and the constructor of \<open>T\<close> has run exactly once, on all the
  arguments, at that pointer, after the allocation.
\<close>

theorem js_new_constructs_iff_allocated:
  assumes "length parms \<le> 12"
  shows "(fst (js_malloc b (sizeof T) w) = nullptr \<longrightarrow>
            js_new b T parms w = (nullptr, snd (js_malloc b (sizeof T) w))
            \<and> constructions (trace (snd (js_new b T parms w))) = constructions (trace w))
       \<and> (fst (js_malloc b (sizeof T) w) \<noteq> nullptr \<longrightarrow>
            fst (js_new b T parms w) = fst (js_malloc b (sizeof T) w)
            \<and> heap (snd (js_new b T parms w))
                = constructor T parms (fst (js_malloc b (sizeof T) w))
                    (heap (snd (js_malloc b (sizeof T) w)))
            \<and> trace (snd (js_new b T parms w))
                = trace (snd (js_malloc b (sizeof T) w)) @ [Construct (fst (js_malloc b (sizeof T) w))]
            \<and> constructions (trace (snd (js_new b T parms w)))
                = constructions (trace w) @ [fst (js_malloc b (sizeof T) w)])"
  by (simp add: js_new_def JS_NEW_BODY_def split_beta placement_new_def
      constructions_append_other constructions_js_malloc)

theorem js_new_witness:
  "length [7 :: nat, 9] \<le> 12
   \<and> fst (js_malloc debug_build (sizeof (plain_class 8 :: (64, nat) cxx_class)) (fresh_world 5)) \<noteq> nullptr
   \<and> fst (js_new debug_build (plain_class 8 :: (64, nat) cxx_class) [7, 9] (fresh_world 5)) = 4096
   \<and> trace (snd (js_new debug_build (plain_class 8 :: (64, nat) cxx_class) [7, 9] (fresh_world 5)))
       = [Malloc 8, Construct 4096]
   \<and> fst (js_malloc debug_build (sizeof (plain_class 8 :: (64, nat) cxx_class)) (fresh_world 0)) = nullptr
   \<and> js_new debug_build (plain_class 8 :: (64, nat) cxx_class) [7, 9] (fresh_world 0)
       = (nullptr, (fresh_world 0)\<lparr>OOM_counter := 1\<rparr>)"
proof -
  let ?T = "plain_class 8 :: (64, nat) cxx_class"
  have len: "length [7 :: nat, 9] \<le> 12" by simp
  have ok: "js_malloc debug_build (sizeof ?T) (fresh_world 5)
      = (4096, (fresh_world 5)\<lparr>OOM_counter := 1, trace := [Malloc 8]\<rparr>)"
    by (simp add: js_malloc_def JS_OOM_POSSIBLY_FAIL_def debug_build_fields fresh_world_def
        call_backend_def fixed_backend_def plain_class_def)
  have bad: "js_malloc debug_build (sizeof ?T) (fresh_world 0)
      = (nullptr, (fresh_world 0)\<lparr>OOM_counter := 1\<rparr>)"
    by (simp add: js_malloc_def JS_OOM_POSSIBLY_FAIL_def JS_OOM_CALL_BP_FUNC_def
        debug_build_fields fresh_world_def)
  have np: "(4096 :: nat) \<noteq> nullptr" by (simp add: nullptr_def)
  from js_new_constructs_iff_allocated [OF len, of debug_build ?T "fresh_world 5"] ok np
  have a: "fst (js_new debug_build ?T [7, 9] (fresh_world 5)) = 4096"
    and b: "trace (snd (js_new debug_build ?T [7, 9] (fresh_world 5))) = [Malloc 8, Construct 4096]"
    by simp_all
  from js_new_constructs_iff_allocated [OF len, of debug_build ?T "fresh_world 0"] bad
  have c: "js_new debug_build ?T [7, 9] (fresh_world 0) = (nullptr, (fresh_world 0)\<lparr>OOM_counter := 1\<rparr>)"
    by simp
  show ?thesis
    using len ok bad np a b c by simp
qed

subsection \<open>Scoped pointers\<close>

lemma trace_traits_release:
  assumes "v \<noteq> nullptr"
  shows "trace (traits_release b T ScopedFreePtrTraits v w) = trace w @ [Free v]"
    and "trace (traits_release b T ScopedDeletePtrTraits v w) = trace w @ [Destruct v, Free v]"
    and "trace (traits_release b T ScopedReleasePtrTraits v w) = trace w @ [MethodRelease v]"
  using assms
  by (simp_all add: trace_js_free js_delete_def run_destructor_def call_release_method_def)

text \<open>
  Claim C7. For each of the three release policies and every value \<open>v\<close> that is not
  null: destroying a handle that owns \<open>v\<close> applies the policy to \<open>v\<close> once (for the three
  policies this is \<open>free(v)\<close>; the destructor at \<open>v\<close> followed by \<open>free(v)\<close>; the call
  \<open>v->release()\<close>). Release-and-forget returns \<open>v\<close> and empties the handle, and
  destroying the handle afterwards changes nothing. A move leaves the source empty;
  destroying the source changes nothing, destroying the destination applies the policy
  to \<open>v\<close> once, and destroying both applies it once in total.
\<close>

theorem scoped_release_exactly_once:
  assumes "v \<noteq> nullptr"
  shows "scoped_destroy b T (scoped_owning tr v) w = traits_release b T tr v w
       \<and> trace (traits_release b T ScopedFreePtrTraits v w) = trace w @ [Free v]
       \<and> trace (traits_release b T ScopedDeletePtrTraits v w) = trace w @ [Destruct v, Free v]
       \<and> trace (traits_release b T ScopedReleasePtrTraits v w) = trace w @ [MethodRelease v]
       \<and> fst (scoped_forget (scoped_owning tr v)) = v
       \<and> held (snd (scoped_forget (scoped_owning tr v))) = traits_empty tr
       \<and> scoped_destroy b T (snd (scoped_forget (scoped_owning tr v))) w = w
       \<and> fst (scoped_move (scoped_owning tr v)) = scoped_owning tr v
       \<and> held (snd (scoped_move (scoped_owning tr v))) = traits_empty tr
       \<and> scoped_destroy b T (snd (scoped_move (scoped_owning tr v))) w = w
       \<and> scoped_destroy b T (fst (scoped_move (scoped_owning tr v))) w = traits_release b T tr v w
       \<and> scoped_destroy b T (fst (scoped_move (scoped_owning tr v)))
            (scoped_destroy b T (snd (scoped_move (scoped_owning tr v))) w)
          = traits_release b T tr v w"
  using assms trace_traits_release [OF assms, of b T w]
  by (simp add: scoped_destroy_def scoped_owning_def scoped_forget_def scoped_move_def
      traits_empty_def)

theorem scoped_release_witness:
  "(4096 :: nat) \<noteq> nullptr
   \<and> trace (scoped_destroy debug_build (plain_class 8 :: (64, nat) cxx_class)
        (scoped_owning ScopedDeletePtrTraits 4096) (fresh_world 5)) = [Destruct 4096, Free 4096]
   \<and> trace (scoped_destroy debug_build (plain_class 8 :: (64, nat) cxx_class)
        (snd (scoped_forget (scoped_owning ScopedDeletePtrTraits 4096))) (fresh_world 5)) = []"
proof -
  let ?T = "plain_class 8 :: (64, nat) cxx_class"
  have np: "(4096 :: nat) \<noteq> nullptr" by (simp add: nullptr_def)
  note t = scoped_release_exactly_once [OF np, of debug_build ?T ScopedDeletePtrTraits "fresh_world 5"]
  from t have "scoped_destroy debug_build ?T (scoped_owning ScopedDeletePtrTraits 4096) (fresh_world 5)
      = traits_release debug_build ?T ScopedDeletePtrTraits 4096 (fresh_world 5)"
    and "trace (traits_release debug_build ?T ScopedDeletePtrTraits 4096 (fresh_world 5))
      = trace (fresh_world 5) @ [Destruct 4096, Free 4096]"
    and "scoped_destroy debug_build ?T (snd (scoped_forget (scoped_owning ScopedDeletePtrTraits 4096)))
        (fresh_world 5) = fresh_world 5"
    by blast+
  then show ?thesis
    using np by (simp add: fresh_world_fields)
qed

subsection \<open>Sentinel bytes\<close>

text \<open>
  Claim C9, as far as the code goes. The eight named patterns are pairwise distinct.
  The byte \<open>js_delete_poison\<close> writes is the same byte as \<open>JS_SWEPT_CODE_PATTERN\<close>
  (\<open>0x3B\<close>), so memory filled with it may be swept code or a poisoned deleted object.
\<close>

theorem sentinel_patterns_named_distinct_delete_reuses_swept_code:
  "distinct [JS_FRESH_NURSERY_PATTERN, JS_SWEPT_NURSERY_PATTERN, JS_ALLOCATED_NURSERY_PATTERN,
             JS_FRESH_TENURED_PATTERN, JS_SWEPT_TENURED_PATTERN, JS_ALLOCATED_TENURED_PATTERN,
             JS_SWEPT_CODE_PATTERN, JS_SWEPT_FRAME_PATTERN]
   \<and> js_delete_poison_byte = JS_SWEPT_CODE_PATTERN"
  by (simp add: JS_FRESH_NURSERY_PATTERN_def JS_SWEPT_NURSERY_PATTERN_def
      JS_ALLOCATED_NURSERY_PATTERN_def JS_FRESH_TENURED_PATTERN_def JS_SWEPT_TENURED_PATTERN_def
      JS_ALLOCATED_TENURED_PATTERN_def JS_SWEPT_CODE_PATTERN_def JS_SWEPT_FRAME_PATTERN_def
      js_delete_poison_byte_def)

text \<open>
  Claim C9 as stated does not hold: the ten bytes are not pairwise distinct, whatever
  the value of \<open>JS_FREE_PATTERN\<close> (here \<open>0xDA\<close>), since swept-code and
  poisoned-on-delete are both \<open>0x3B\<close>.
\<close>

theorem sentinel_patterns_not_distinct:
  "\<not> distinct (sentinel_patterns debug_build)"
  by (simp add: sentinel_patterns_def JS_SWEPT_CODE_PATTERN_def js_delete_poison_byte_def)

subsection \<open>Raw arrays: the overflow check\<close>

text \<open>
  Claim C10, as far as the code goes. With \<open>numElems = 0\<close> the test \<open>numElems & mask\<close> is
  zero for every mask, hence for every element size: \<open>js_pod_malloc\<close> is \<open>js_malloc(0)\<close>
  and \<open>js_pod_calloc\<close> is \<open>js_calloc(0)\<close>, never the overflow return (null with the world
  untouched). The zero-byte request reaches the backend, as \<open>malloc(0)\<close> respectively
  \<open>calloc(0, 1)\<close>, exactly when the fault injector lets the call through (always, when
  it is not compiled in); when the injector fires, the result is null and no backend
  call is made.
\<close>

theorem js_pod_alloc_zero_never_overflow:
  fixes ovf_mask :: "'a::len word"
  shows "0 AND ovf_mask = 0
   \<and> js_pod_malloc b ovf_mask T 0 w = js_malloc b (0 :: 'a word) w
   \<and> js_pod_calloc b ovf_mask T 0 w = js_calloc b (0 :: 'a word) w
   \<and> js_pod_malloc b ovf_mask T 0 w \<noteq> (nullptr, w)
   \<and> js_pod_calloc b ovf_mask T 0 w \<noteq> (nullptr, w)
   \<and> (\<not> fst (JS_OOM_POSSIBLY_FAIL b w) \<longrightarrow>
         trace (snd (js_pod_malloc b ovf_mask T 0 w)) = trace w @ [Malloc 0]
         \<and> trace (snd (js_pod_calloc b ovf_mask T 0 w)) = trace w @ [Calloc 0 1])
   \<and> (fst (JS_OOM_POSSIBLY_FAIL b w) \<longrightarrow>
         fst (js_pod_malloc b ovf_mask T 0 w) = nullptr
         \<and> backend_calls (snd (js_pod_malloc b ovf_mask T 0 w)) = backend_calls w
         \<and> fst (js_pod_calloc b ovf_mask T 0 w) = nullptr
         \<and> backend_calls (snd (js_pod_calloc b ovf_mask T 0 w)) = backend_calls w)"
proof -
  have m: "js_pod_malloc b ovf_mask T 0 w = gated_call b (ReqMalloc (0 :: 'a word)) w"
    and c: "js_pod_calloc b ovf_mask T 0 w = gated_call b (ReqCalloc (0 :: 'a word)) w"
    by (simp_all add: js_pod_malloc_def js_pod_calloc_def)
  have "js_pod_malloc b ovf_mask T 0 w \<noteq> (nullptr, w)"
    and "js_pod_calloc b ovf_mask T 0 w \<noteq> (nullptr, w)"
    using gated_call_changes_world [of b "ReqMalloc (0 :: 'a word)" w]
      gated_call_changes_world [of b "ReqCalloc (0 :: 'a word)" w]
    unfolding m c by (metis snd_conv)+
  moreover have "\<not> fst (JS_OOM_POSSIBLY_FAIL b w) \<longrightarrow>
         trace (snd (js_pod_malloc b ovf_mask T 0 w)) = trace w @ [Malloc 0]
         \<and> trace (snd (js_pod_calloc b ovf_mask T 0 w)) = trace w @ [Calloc 0 1]"
    unfolding m c
    using gated_call_let_through [of b w "ReqMalloc (0 :: 'a word)"]
      gated_call_let_through [of b w "ReqCalloc (0 :: 'a word)"]
    by simp
  moreover have "fst (JS_OOM_POSSIBLY_FAIL b w) \<longrightarrow>
         fst (js_pod_malloc b ovf_mask T 0 w) = nullptr
         \<and> backend_calls (snd (js_pod_malloc b ovf_mask T 0 w)) = backend_calls w
         \<and> fst (js_pod_calloc b ovf_mask T 0 w) = nullptr
         \<and> backend_calls (snd (js_pod_calloc b ovf_mask T 0 w)) = backend_calls w"
    unfolding m c
    using gated_call_stopped [of b w "ReqMalloc (0 :: 'a word)"]
      gated_call_stopped [of b w "ReqCalloc (0 :: 'a word)"]
    by simp
  ultimately show ?thesis
    using m c by simp
qed

theorem js_pod_alloc_zero_witness:
  "\<not> fst (JS_OOM_POSSIBLY_FAIL debug_build (fresh_world 5))
   \<and> fst (js_pod_malloc debug_build (MulOverflowMask 8) (plain_class 8 :: (64, nat) cxx_class) 0
            (fresh_world 5)) = 4096
   \<and> trace (snd (js_pod_malloc debug_build (MulOverflowMask 8) (plain_class 8 :: (64, nat) cxx_class) 0
            (fresh_world 5))) = [Malloc 0]
   \<and> trace (snd (js_pod_calloc debug_build (MulOverflowMask 8) (plain_class 8 :: (64, nat) cxx_class) 0
            (fresh_world 5))) = [Calloc 0 1]"
proof -
  let ?T = "plain_class 8 :: (64, nat) cxx_class"
  have pass: "\<not> fst (JS_OOM_POSSIBLY_FAIL debug_build (fresh_world 5))"
    by (simp add: JS_OOM_POSSIBLY_FAIL_def debug_build_fields fresh_world_def)
  note t = js_pod_alloc_zero_never_overflow [of "MulOverflowMask 8" debug_build ?T "fresh_world 5"]
  from t pass
  have a: "trace (snd (js_pod_malloc debug_build (MulOverflowMask 8) ?T 0 (fresh_world 5)))
      = trace (fresh_world 5) @ [Malloc 0]"
    and b: "trace (snd (js_pod_calloc debug_build (MulOverflowMask 8) ?T 0 (fresh_world 5)))
      = trace (fresh_world 5) @ [Calloc 0 1]"
    by blast+
  from t have "js_pod_malloc debug_build (MulOverflowMask 8) ?T 0 (fresh_world 5)
      = js_malloc debug_build (0 :: 64 word) (fresh_world 5)"
    by blast
  then have c: "fst (js_pod_malloc debug_build (MulOverflowMask 8) ?T 0 (fresh_world 5)) = 4096"
    by (simp add: js_malloc_def JS_OOM_POSSIBLY_FAIL_def debug_build_fields fresh_world_def
        fst_call_backend fixed_backend_def)
  show ?thesis
    using pass a b c by (simp add: fresh_world_fields)
qed

text \<open>
  Claim C10 as stated does not hold: a zero-byte request is not always forwarded to the
  backend. In a debug build with threshold 0 the injector fires on the first gated call:
  \<open>js_pod_malloc<T>(0)\<close> and \<open>js_pod_calloc<T>(0)\<close> pass the overflow check, step the
  counter and return null, and the trace stays empty.
\<close>

theorem js_pod_alloc_zero_stopped_by_injector:
  "DEBUG debug_build
   \<and> OOM_counter (fresh_world 0) = 0 \<and> OOM_maxAllocations (fresh_world 0) = 0
   \<and> js_pod_malloc debug_build (MulOverflowMask 8) (plain_class 8 :: (64, nat) cxx_class) 0
        (fresh_world 0) = (nullptr, (fresh_world 0)\<lparr>OOM_counter := 1\<rparr>)
   \<and> js_pod_calloc debug_build (MulOverflowMask 8) (plain_class 8 :: (64, nat) cxx_class) 0
        (fresh_world 0) = (nullptr, (fresh_world 0)\<lparr>OOM_counter := 1\<rparr>)
   \<and> trace ((fresh_world 0)\<lparr>OOM_counter := 1\<rparr>) = []"
  by (simp add: js_pod_malloc_def js_pod_calloc_def js_malloc_def js_calloc_def
      JS_OOM_POSSIBLY_FAIL_def JS_OOM_CALL_BP_FUNC_def debug_build_fields fresh_world_def)

lemma small_sizes_not_one:
  assumes "4 < LENGTH('a::len)"
  shows "(4 :: 'a word) \<noteq> 1" "(8 :: 'a word) \<noteq> 1" "(16 :: 'a word) \<noteq> 1"
proof -
  note u = unat_small_numerals [OF assms]
  show "(4 :: 'a word) \<noteq> 1"
  proof
    assume "(4 :: 'a word) = 1"
    then have "unat (4 :: 'a word) = unat (1 :: 'a word)" by (rule arg_cong)
    with u(1) show False by simp
  qed
  show "(8 :: 'a word) \<noteq> 1"
  proof
    assume "(8 :: 'a word) = 1"
    then have "unat (8 :: 'a word) = unat (1 :: 'a word)" by (rule arg_cong)
    with u(2) show False by simp
  qed
  show "(16 :: 'a word) \<noteq> 1"
  proof
    assume "(16 :: 'a word) = 1"
    then have "unat (16 :: 'a word) = unat (1 :: 'a word)" by (rule arg_cong)
    with u(3) show False by simp
  qed
qed

lemma MulOverflowMask_small:
  assumes "4 < LENGTH('a::len)"
  shows "MulOverflowMask (1 :: 'a word) = 0"
    and "MulOverflowMask (4 :: 'a word) = NOT (push_bit (LENGTH('a) - 2) 1 - 1)"
    and "MulOverflowMask (8 :: 'a word) = NOT (push_bit (LENGTH('a) - 3) 1 - 1)"
    and "MulOverflowMask (16 :: 'a word) = NOT (push_bit (LENGTH('a) - 4) 1 - 1)"
proof -
  show "MulOverflowMask (1 :: 'a word) = 0"
    by (simp add: MulOverflowMask_def)
  show "MulOverflowMask (4 :: 'a word) = NOT (push_bit (LENGTH('a) - 2) 1 - 1)"
    by (simp only: MulOverflowMask_def small_sizes_not_one [OF assms]
        unat_small_numerals [OF assms] CeilingLog2_values if_False)
  show "MulOverflowMask (8 :: 'a word) = NOT (push_bit (LENGTH('a) - 3) 1 - 1)"
    by (simp only: MulOverflowMask_def small_sizes_not_one [OF assms]
        unat_small_numerals [OF assms] CeilingLog2_values if_False)
  show "MulOverflowMask (16 :: 'a word) = NOT (push_bit (LENGTH('a) - 4) 1 - 1)"
    by (simp only: MulOverflowMask_def small_sizes_not_one [OF assms]
        unat_small_numerals [OF assms] CeilingLog2_values if_False)
qed

lemma MulOverflowMask_check:
  fixes n sz :: "'a::len word"
  assumes "4 < LENGTH('a)" and "sz \<in> {1, 4, 8, 16}"
  shows "(n AND MulOverflowMask sz \<noteq> 0) \<longleftrightarrow> 2 ^ LENGTH('a) \<le> unat n * unat sz"
proof -
  note u = unat_small_numerals [OF assms(1)]
  note m = MulOverflowMask_small [OF assms(1)]
  from assms(2) consider "sz = 1" | "sz = 4" | "sz = 8" | "sz = 16"
    by auto
  then show ?thesis
  proof cases
    case 1
    have "\<not> 2 ^ LENGTH('a) \<le> unat n"
      using unsigned_less [of n] by (simp add: not_le)
    with 1 show ?thesis
      by (simp add: m(1))
  next
    case 2
    have "2 \<le> LENGTH('a)" using assms(1) by simp
    from top_bits_mask_iff [OF this, of n] show ?thesis
      by (simp only: 2 m(2) u(1)) simp
  next
    case 3
    have "3 \<le> LENGTH('a)" using assms(1) by simp
    from top_bits_mask_iff [OF this, of n] show ?thesis
      by (simp only: 3 m(3) u(2)) simp
  next
    case 4
    have "4 \<le> LENGTH('a)" using assms(1) by simp
    from top_bits_mask_iff [OF this, of n] show ?thesis
      by (simp only: 4 m(4) u(3)) simp
  qed
qed

lemma unat_mult_fits:
  fixes n sz :: "'a::len word"
  assumes "unat n * unat sz < 2 ^ LENGTH('a)"
  shows "unat (n * sz) = unat n * unat sz"
  using assms by (simp add: unat_word_ariths)

lemma unat_succ_fits:
  fixes n :: "'a::len word"
  assumes "unat n + 1 < 2 ^ LENGTH('a)"
  shows "unat (n + 1) = unat n + 1"
  using assms by (simp add: unat_word_ariths)

lemma pod_overflow_refused:
  fixes T :: "('a::len, 'v) cxx_class" and n :: "'a word"
  assumes "4 < LENGTH('a)" and "sizeof T \<in> {1, 4, 8, 16}"
    and "2 ^ LENGTH('a) \<le> unat n * unat (sizeof T)"
  shows "js_pod_malloc b (MulOverflowMask (sizeof T)) T n w = (nullptr, w)"
    and "js_pod_calloc b (MulOverflowMask (sizeof T)) T n w = (nullptr, w)"
  using MulOverflowMask_check [OF assms(1,2), of n] assms(3)
  by (simp_all add: js_pod_malloc_def js_pod_calloc_def)

lemma pod_fitting_forwarded:
  fixes T :: "('a::len, 'v) cxx_class" and n :: "'a word"
  assumes "4 < LENGTH('a)" and "sizeof T \<in> {1, 4, 8, 16}"
    and "unat n * unat (sizeof T) < 2 ^ LENGTH('a)"
  shows "js_pod_malloc b (MulOverflowMask (sizeof T)) T n w = js_malloc b (n * sizeof T) w"
    and "js_pod_calloc b (MulOverflowMask (sizeof T)) T n w = js_calloc b (n * sizeof T) w"
  using MulOverflowMask_check [OF assms(1,2), of n] assms(3)
  by (simp_all add: js_pod_malloc_def js_pod_calloc_def not_le [symmetric])

text \<open>
  Claim C2, as far as the code goes. For a size type of more than four bits and
  \<open>sizeof(T)\<close> one of 1, 4, 8, 16, and every count \<open>n\<close>: if \<open>n * sizeof(T)\<close> overflows
  the size type, \<open>js_pod_malloc\<close> and \<open>js_pod_calloc\<close> return null and leave the world
  untouched (no backend call, no injector step); if it fits, they are \<open>js_malloc\<close> and
  \<open>js_calloc\<close> of the exact product, which reaches the backend when the fault injector
  lets the call through. At the boundary (\<open>n\<close> fits, \<open>n + 1\<close> would not) and for sizes
  4, 8, 16 the call with \<open>n + 1\<close> is refused. For size 1 every count is forwarded.
\<close>

theorem js_pod_alloc_overflow_boundary:
  fixes T :: "('a::len, 'v) cxx_class" and n :: "'a word"
  assumes "4 < LENGTH('a)" and "sizeof T \<in> {1, 4, 8, 16}"
  shows "(2 ^ LENGTH('a) \<le> unat n * unat (sizeof T) \<longrightarrow>
            js_pod_malloc b (MulOverflowMask (sizeof T)) T n w = (nullptr, w)
          \<and> js_pod_calloc b (MulOverflowMask (sizeof T)) T n w = (nullptr, w))
       \<and> (unat n * unat (sizeof T) < 2 ^ LENGTH('a) \<longrightarrow>
            js_pod_malloc b (MulOverflowMask (sizeof T)) T n w = js_malloc b (n * sizeof T) w
          \<and> js_pod_calloc b (MulOverflowMask (sizeof T)) T n w = js_calloc b (n * sizeof T) w
          \<and> unat (n * sizeof T) = unat n * unat (sizeof T)
          \<and> (\<not> fst (JS_OOM_POSSIBLY_FAIL b w) \<longrightarrow>
                trace (snd (js_pod_malloc b (MulOverflowMask (sizeof T)) T n w))
                  = trace w @ [Malloc (unat n * unat (sizeof T))]
              \<and> trace (snd (js_pod_calloc b (MulOverflowMask (sizeof T)) T n w))
                  = trace w @ [Calloc (unat n * unat (sizeof T)) 1]))
       \<and> (unat n * unat (sizeof T) < 2 ^ LENGTH('a)
            \<and> 2 ^ LENGTH('a) \<le> (unat n + 1) * unat (sizeof T) \<and> sizeof T \<noteq> 1 \<longrightarrow>
            js_pod_malloc b (MulOverflowMask (sizeof T)) T (n + 1) w = (nullptr, w)
          \<and> js_pod_calloc b (MulOverflowMask (sizeof T)) T (n + 1) w = (nullptr, w))
       \<and> (sizeof T = 1 \<longrightarrow>
            js_pod_malloc b (MulOverflowMask (sizeof T)) T n w = js_malloc b n w
          \<and> js_pod_calloc b (MulOverflowMask (sizeof T)) T n w = js_calloc b n w)"
proof (intro conjI impI)
  note refused = pod_overflow_refused [OF assms]
  note forwarded = pod_fitting_forwarded [OF assms]
  {
    assume ovf: "2 ^ LENGTH('a) \<le> unat n * unat (sizeof T)"
    show "js_pod_malloc b (MulOverflowMask (sizeof T)) T n w = (nullptr, w)"
      and "js_pod_calloc b (MulOverflowMask (sizeof T)) T n w = (nullptr, w)"
      by (rule refused [OF ovf])+
  }
  {
    assume fits: "unat n * unat (sizeof T) < 2 ^ LENGTH('a)"
    show m: "js_pod_malloc b (MulOverflowMask (sizeof T)) T n w = js_malloc b (n * sizeof T) w"
      and c: "js_pod_calloc b (MulOverflowMask (sizeof T)) T n w = js_calloc b (n * sizeof T) w"
      by (rule forwarded [OF fits])+
    show u: "unat (n * sizeof T) = unat n * unat (sizeof T)"
      by (rule unat_mult_fits [OF fits])
    {
      assume pass: "\<not> fst (JS_OOM_POSSIBLY_FAIL b w)"
      show "trace (snd (js_pod_malloc b (MulOverflowMask (sizeof T)) T n w))
              = trace w @ [Malloc (unat n * unat (sizeof T))]"
        using gated_call_let_through [OF pass, of "ReqMalloc (n * sizeof T)"]
        by (simp add: m u)
      show "trace (snd (js_pod_calloc b (MulOverflowMask (sizeof T)) T n w))
              = trace w @ [Calloc (unat n * unat (sizeof T)) 1]"
        using gated_call_let_through [OF pass, of "ReqCalloc (n * sizeof T)"]
        by (simp add: c u)
    }
  }
  {
    assume bnd: "unat n * unat (sizeof T) < 2 ^ LENGTH('a)
            \<and> 2 ^ LENGTH('a) \<le> (unat n + 1) * unat (sizeof T) \<and> sizeof T \<noteq> 1"
    have "4 \<le> unat (sizeof T)"
      using assms(2) bnd unat_small_numerals [OF assms(1)] by auto
    then have "unat n * 4 \<le> unat n * unat (sizeof T)"
      by (rule mult_le_mono2)
    moreover from bnd have "unat n * unat (sizeof T) < 2 ^ LENGTH('a)"
      by (rule conjunct1)
    ultimately have "unat n * 4 < 2 ^ LENGTH('a)"
      by (rule le_less_trans)
    moreover have "(1::nat) < 2 ^ LENGTH('a)"
      using one_less_power [of "2::nat" "LENGTH('a)"] by simp
    ultimately have "unat n + 1 < 2 ^ LENGTH('a)"
      by arith
    then have "unat (n + 1) = unat n + 1"
      by (rule unat_succ_fits)
    with bnd have ovf: "2 ^ LENGTH('a) \<le> unat (n + 1) * unat (sizeof T)"
      by simp
    show "js_pod_malloc b (MulOverflowMask (sizeof T)) T (n + 1) w = (nullptr, w)"
      and "js_pod_calloc b (MulOverflowMask (sizeof T)) T (n + 1) w = (nullptr, w)"
      by (rule pod_overflow_refused [OF assms ovf])+
  }
  {
    assume one: "sizeof T = 1"
    have fits: "unat n * unat (sizeof T) < 2 ^ LENGTH('a)"
      using unsigned_less [of n] by (simp add: one)
    show "js_pod_malloc b (MulOverflowMask (sizeof T)) T n w = js_malloc b n w"
      and "js_pod_calloc b (MulOverflowMask (sizeof T)) T n w = js_calloc b n w"
      using forwarded [OF fits, of b w] by (simp_all add: one)
  }
qed

theorem js_pod_alloc_overflow_boundary_witness:
  "4 < LENGTH(64)
   \<and> sizeof (plain_class 8 :: (64, nat) cxx_class) \<in> {1, 4, 8, 16}
   \<and> sizeof (plain_class 8 :: (64, nat) cxx_class) \<noteq> 1
   \<and> unat (0x1FFFFFFFFFFFFFFF :: 64 word) * unat (sizeof (plain_class 8 :: (64, nat) cxx_class))
        < 2 ^ LENGTH(64)
   \<and> 2 ^ LENGTH(64)
        \<le> (unat (0x1FFFFFFFFFFFFFFF :: 64 word) + 1) * unat (sizeof (plain_class 8 :: (64, nat) cxx_class))
   \<and> \<not> fst (JS_OOM_POSSIBLY_FAIL release_build (fresh_world 0))
   \<and> trace (snd (js_pod_malloc release_build
         (MulOverflowMask (sizeof (plain_class 8 :: (64, nat) cxx_class)))
         (plain_class 8 :: (64, nat) cxx_class) 0x1FFFFFFFFFFFFFFF (fresh_world 0)))
       = [Malloc 0xFFFFFFFFFFFFFFF8]
   \<and> js_pod_malloc release_build
         (MulOverflowMask (sizeof (plain_class 8 :: (64, nat) cxx_class)))
         (plain_class 8 :: (64, nat) cxx_class) (0x1FFFFFFFFFFFFFFF + 1) (fresh_world 0)
       = (nullptr, fresh_world 0)"
proof -
  let ?T = "plain_class 8 :: (64, nat) cxx_class"
  let ?n = "0x1FFFFFFFFFFFFFFF :: 64 word"
  have w: "4 < LENGTH(64)" by simp
  have sz: "sizeof ?T = 8" by (simp add: plain_class_def)
  have mem: "sizeof ?T \<in> {1, 4, 8, 16}" by (simp add: sz)
  have ne: "sizeof ?T \<noteq> 1" by (simp add: sz)
  have fits: "unat ?n * unat (sizeof ?T) < 2 ^ LENGTH(64)" by (simp add: sz)
  have nxt: "2 ^ LENGTH(64) \<le> (unat ?n + 1) * unat (sizeof ?T)" by (simp add: sz)
  have pass: "\<not> fst (JS_OOM_POSSIBLY_FAIL release_build (fresh_world 0))"
    by (simp add: JS_OOM_POSSIBLY_FAIL_def release_build_fields)
  note t = js_pod_alloc_overflow_boundary [OF w mem, of ?n release_build "fresh_world 0"]
  from t fits pass
  have "trace (snd (js_pod_malloc release_build (MulOverflowMask (sizeof ?T)) ?T ?n (fresh_world 0)))
      = trace (fresh_world 0) @ [Malloc (unat ?n * unat (sizeof ?T))]"
    by blast
  then have a: "trace (snd (js_pod_malloc release_build (MulOverflowMask (sizeof ?T)) ?T ?n (fresh_world 0)))
      = [Malloc 0xFFFFFFFFFFFFFFF8]"
    by (simp add: sz fresh_world_fields)
  from t fits nxt ne
  have b: "js_pod_malloc release_build (MulOverflowMask (sizeof ?T)) ?T (?n + 1) (fresh_world 0)
      = (nullptr, fresh_world 0)"
    by blast
  show ?thesis
    using w mem ne fits nxt pass a b by blast
qed

text \<open>
  Claim C2 as stated does not hold for \<open>sizeof(T) = 1\<close>: the largest count that fits is
  the largest value of the size type, the count after it is 0 in that type, and
  \<open>js_pod_malloc\<close> forwards it: the backend is called with \<open>malloc(0)\<close> and its pointer
  returned.
\<close>

theorem js_pod_malloc_size_one_has_no_count_past_boundary:
  "sizeof (plain_class 1 :: (64, nat) cxx_class) = 1
   \<and> unat (- 1 :: 64 word) * unat (sizeof (plain_class 1 :: (64, nat) cxx_class)) < 2 ^ 64
   \<and> 2 ^ 64 \<le> (unat (- 1 :: 64 word) + 1) * unat (sizeof (plain_class 1 :: (64, nat) cxx_class))
   \<and> js_pod_malloc release_build (MulOverflowMask (sizeof (plain_class 1 :: (64, nat) cxx_class)))
         (plain_class 1 :: (64, nat) cxx_class) (- 1 + 1) (fresh_world 0)
       = (4096, (fresh_world 0)\<lparr>trace := [Malloc 0]\<rparr>)
   \<and> (4096 :: nat) \<noteq> nullptr"
  by (simp add: plain_class_def MulOverflowMask_def js_pod_malloc_def js_malloc_def
      JS_OOM_POSSIBLY_FAIL_def release_build_fields call_backend_def fixed_backend_def
      fresh_world_def nullptr_def unsigned_minus_1_eq_mask mask_eq_exp_minus_1)

subsection \<open>Poisoned pointer words\<close>

lemma byte3_mask_const: "(0xff000000 :: 'a::len word) = push_bit 24 (mask 8)"
  by (simp add: push_bit_eq_mult mask_eq_exp_minus_1)

lemma masked_byte3:
  fixes v :: "'a::len word"
  shows "(ucast (v AND 0xff000000) :: u32) = push_bit 24 (ucast (byte3 v))"
  unfolding byte3_mask_const byte3_def
  by (rule bit_eqI) (auto simp add: bit_simps dest: bit_imp_le_length)

lemma shifted_pattern:
  fixes pat :: u32
  shows "push_bit 24 pat = push_bit 24 (ucast (ucast pat :: u8))"
  by (rule bit_eqI) (auto simp add: bit_simps)

lemma byte_back:
  fixes x :: u8
  shows "(ucast (drop_bit 24 (push_bit 24 (ucast x :: u32))) :: u8) = x"
  by (rule bit_eqI) (auto simp add: bit_simps)

lemma IsPoisonedPtr_byte3:
  fixes v :: "'a::len word"
  assumes "JSGC_ROOT_ANALYSIS b \<and> JS_DEBUG b"
  shows "IsPoisonedPtr b v \<longleftrightarrow> byte3 v = ucast (JS_FREE_PATTERN b)"
proof -
  let ?p = "ucast (JS_FREE_PATTERN b) :: u8"
  have "IsPoisonedPtr b v
        \<longleftrightarrow> (push_bit 24 (ucast (byte3 v)) :: u32) = push_bit 24 (ucast ?p)"
    using assms shifted_pattern [of "JS_FREE_PATTERN b"]
    by (simp add: IsPoisonedPtr_def masked_byte3)
  also have "\<dots> \<longleftrightarrow> byte3 v = ?p"
  proof
    assume "(push_bit 24 (ucast (byte3 v)) :: u32) = push_bit 24 (ucast ?p)"
    then have "(ucast (drop_bit 24 (push_bit 24 (ucast (byte3 v) :: u32))) :: u8)
        = ucast (drop_bit 24 (push_bit 24 (ucast ?p :: u32)))"
      by (rule arg_cong)
    then show "byte3 v = ?p"
      by (simp only: byte_back)
  next
    assume "byte3 v = ?p"
    then show "(push_bit 24 (ucast (byte3 v)) :: u32) = push_bit 24 (ucast ?p)"
      by (rule arg_cong)
  qed
  finally show ?thesis .
qed

lemma bit_load_pointer_word:
  "bit (load_pointer_word m a :: 'a::len word) n
   \<longleftrightarrow> n < LENGTH('a) \<and> n div 8 < LENGTH('a) div 8 \<and> bit (m (a + n div 8)) (n mod 8)"
  by (auto simp add: load_pointer_word_def bit_word_of_int_iff bit_horner_sum_uint_exp_iff [where ?'a = 8, simplified])

lemma byte3_load_pointer_word:
  assumes "32 \<le> LENGTH('a::len)"
  shows "byte3 (load_pointer_word m a :: 'a word) = m (a + 3)"
proof (rule bit_eqI)
  fix n
  assume "possible_bit TYPE(u8) n"
  then have n: "n < 8" by (simp add: possible_bit_word)
  then have d: "(24 + n) div 8 = 3" and r: "(24 + n) mod 8 = n"
    by presburger+
  have "3 < LENGTH('a) div 8" using assms by simp
  moreover have "n + 24 < LENGTH('a)" using assms n by simp
  ultimately show "bit (byte3 (load_pointer_word m a :: 'a word)) n = bit (m (a + 3)) n"
    using n by (simp add: byte3_def bit_simps bit_load_pointer_word d r)
qed

text \<open>
  Claim C8, as far as the code goes. With root analysis compiled in, \<open>PoisonPtr(v)\<close>
  overwrites exactly one byte, the one at address \<open>v + 3\<close>, with the sentinel (the low
  byte of \<open>JS_FREE_PATTERN\<close>), and \<open>IsPoisonedPtr(v)\<close> is true exactly when bits 24 to 31
  of the pointer value, its fourth byte counted from the least significant one, equal the
  sentinel. On a little-endian layout these are the same byte, for pointers of 32 bits
  and more: a pointer word read back from the poisoned location tests as poisoned.
  Without root analysis \<open>PoisonPtr\<close> changes nothing and \<open>IsPoisonedPtr\<close> is false for
  every pointer.
\<close>

theorem poison_marks_byte_three:
  fixes v :: "'a::len word"
  shows "(JSGC_ROOT_ANALYSIS b \<and> JS_DEBUG b \<longrightarrow>
            PoisonPtr b a w = w\<lparr>heap := (heap w)(a + 3 := ucast (JS_FREE_PATTERN b))\<rparr>
          \<and> (IsPoisonedPtr b v \<longleftrightarrow> byte3 v = ucast (JS_FREE_PATTERN b))
          \<and> (32 \<le> LENGTH('a) \<longrightarrow>
                byte3 (load_pointer_word (heap (PoisonPtr b a w)) a :: 'a word)
                  = ucast (JS_FREE_PATTERN b)
              \<and> IsPoisonedPtr b (load_pointer_word (heap (PoisonPtr b a w)) a :: 'a word)))
       \<and> (\<not> (JSGC_ROOT_ANALYSIS b \<and> JS_DEBUG b) \<longrightarrow>
            PoisonPtr b a w = w \<and> \<not> IsPoisonedPtr b v)"
proof (intro conjI impI)
  assume off: "\<not> (JSGC_ROOT_ANALYSIS b \<and> JS_DEBUG b)"
  then show "PoisonPtr b a w = w" and "\<not> IsPoisonedPtr b v"
    by (auto simp add: PoisonPtr_def IsPoisonedPtr_def)
next
  assume on: "JSGC_ROOT_ANALYSIS b \<and> JS_DEBUG b"
  show p: "PoisonPtr b a w = w\<lparr>heap := (heap w)(a + 3 := ucast (JS_FREE_PATTERN b))\<rparr>"
    using on by (simp add: PoisonPtr_def)
  show "IsPoisonedPtr b v \<longleftrightarrow> byte3 v = ucast (JS_FREE_PATTERN b)"
    by (rule IsPoisonedPtr_byte3 [OF on])
  {
    assume wide: "32 \<le> LENGTH('a)"
    show l: "byte3 (load_pointer_word (heap (PoisonPtr b a w)) a :: 'a word)
        = ucast (JS_FREE_PATTERN b)"
      by (simp add: byte3_load_pointer_word [OF wide] p)
    show "IsPoisonedPtr b (load_pointer_word (heap (PoisonPtr b a w)) a :: 'a word)"
      by (simp only: IsPoisonedPtr_byte3 [OF on] l)
  }
qed

theorem poison_marks_byte_three_witness:
  "JSGC_ROOT_ANALYSIS debug_build \<and> JS_DEBUG debug_build
   \<and> 32 \<le> LENGTH(64)
   \<and> IsPoisonedPtr debug_build
        (load_pointer_word (heap (PoisonPtr debug_build 100 (fresh_world 0))) 100 :: 64 word)
   \<and> \<not> (JSGC_ROOT_ANALYSIS release_build \<and> JS_DEBUG release_build)
   \<and> PoisonPtr release_build 100 (fresh_world 0) = fresh_world 0
   \<and> \<not> IsPoisonedPtr release_build (0xDA000000 :: 64 word)"
proof -
  have on: "JSGC_ROOT_ANALYSIS debug_build \<and> JS_DEBUG debug_build"
    by (simp add: debug_build_fields)
  have off: "\<not> (JSGC_ROOT_ANALYSIS release_build \<and> JS_DEBUG release_build)"
    by (simp add: release_build_fields)
  have wide: "32 \<le> LENGTH(64)" by simp
  from poison_marks_byte_three [of debug_build 100 "fresh_world 0" "0 :: 64 word"] on wide
  have a: "IsPoisonedPtr debug_build
        (load_pointer_word (heap (PoisonPtr debug_build 100 (fresh_world 0))) 100 :: 64 word)"
    by blast
  from poison_marks_byte_three [of release_build 100 "fresh_world 0" "0xDA000000 :: 64 word"] off
  have b: "PoisonPtr release_build 100 (fresh_world 0) = fresh_world 0"
    and c: "\<not> IsPoisonedPtr release_build (0xDA000000 :: 64 word)"
    by blast+
  show ?thesis
    using on off wide a b c by blast
qed

text \<open>
  Claim C8 as stated does not hold: the byte written and tested is not the
  second-most-significant byte of the pointer, on neither layout. A 32-bit and a 64-bit
  pointer whose second-most-significant byte is the sentinel \<open>0xDA\<close> do not test as
  poisoned; the pointer \<open>0xDA000000\<close> tests as poisoned though its
  second-most-significant byte is 0 (32 bits: it is the most significant byte; 64 bits: the
  fifth-most-significant); and poisoning a null pointer word in little-endian memory
  gives \<open>0xDA000000\<close> on both layouts.
\<close>

theorem tested_byte_is_not_second_most_significant:
  "JSGC_ROOT_ANALYSIS debug_build \<and> JS_DEBUG debug_build
   \<and> second_most_significant_byte (0x00DA0000 :: 32 word) = ucast (JS_FREE_PATTERN debug_build)
   \<and> \<not> IsPoisonedPtr debug_build (0x00DA0000 :: 32 word)
   \<and> second_most_significant_byte (0xDA000000 :: 32 word) \<noteq> ucast (JS_FREE_PATTERN debug_build)
   \<and> IsPoisonedPtr debug_build (0xDA000000 :: 32 word)
   \<and> second_most_significant_byte (0x00DA000000000000 :: 64 word) = ucast (JS_FREE_PATTERN debug_build)
   \<and> \<not> IsPoisonedPtr debug_build (0x00DA000000000000 :: 64 word)
   \<and> second_most_significant_byte (0xDA000000 :: 64 word) \<noteq> ucast (JS_FREE_PATTERN debug_build)
   \<and> IsPoisonedPtr debug_build (0xDA000000 :: 64 word)
   \<and> load_pointer_word (heap (PoisonPtr debug_build 100 (fresh_world 0))) 100 = (0xDA000000 :: 32 word)
   \<and> load_pointer_word (heap (PoisonPtr debug_build 100 (fresh_world 0))) 100 = (0xDA000000 :: 64 word)"
  by (simp add: second_most_significant_byte_def IsPoisonedPtr_def debug_build_def
      load_pointer_word_def PoisonPtr_def fresh_world_def upt_rec)

end
